theory Spec2Isabelle
  imports Complex_Main "HOL-Library.Log_Nat"
begin

section \<open>Python values\<close>

text \<open>
  The handlers of \<^verbatim>\<open>Proyecto_Final_Mercadito.py\<close> read a JSON body with
  \<^verbatim>\<open>request.get_json()\<close> and apply Python's built-ins to its fields without looking
  at their type first, so a field is a dynamically typed value. A Python \<^verbatim>\<open>float\<close> is
  an IEEE double: it is represented by the rational it denotes, or by one of the three
  special values. \<^verbatim>\<open>json.loads\<close> produces all of them (it reads \<^verbatim>\<open>NaN\<close> and
  \<^verbatim>\<open>Infinity\<close> too). A \<^verbatim>\<open>str\<close> is a list of characters, one \<open>char\<close> for one code
  point below 256.
\<close>

datatype pyfloat = Fin rat | PosInf | NegInf | NaN

datatype pyval =
    PNone
  | PBool bool
  | PInt int
  | PFloat pyfloat
  | PStr string
  | PList "pyval list"
  | PDict "(string \<times> pyval) list"

text \<open>
  The exceptions that can reach a handler's \<^verbatim>\<open>except Exception\<close>. \<open>NotFound\<close> is
  werkzeug's \<^verbatim>\<open>NotFound\<close>, raised by \<^verbatim>\<open>abort(404)\<close> inside \<^verbatim>\<open>get_or_404\<close>,
  \<^verbatim>\<open>first_or_404\<close> and \<^verbatim>\<open>paginate\<close>; it derives from \<^verbatim>\<open>Exception\<close>.
  \<open>DBError\<close> stands for the SQLAlchemy errors of a flush (a constraint that fails, a
  parameter that cannot be bound).
\<close>

datatype exc = TypeError | ValueError | OverflowError | AttributeError | KeyError
  | NotFound | DBError

definition then_do :: "exc + 'a \<Rightarrow> ('a \<Rightarrow> exc + 'b) \<Rightarrow> exc + 'b" where
  "then_do m f = (case m of Inl e \<Rightarrow> Inl e | Inr x \<Rightarrow> f x)"

subsection \<open>Truth value, \<^verbatim>\<open>len\<close>, slicing\<close>

fun truthy :: "pyval \<Rightarrow> bool" where
  "truthy PNone = False"
| "truthy (PBool b) = b"
| "truthy (PInt n) = (n \<noteq> 0)"
| "truthy (PFloat f) = (f \<noteq> Fin 0)"
| "truthy (PStr s) = (s \<noteq> [])"
| "truthy (PList xs) = (xs \<noteq> [])"
| "truthy (PDict kvs) = (kvs \<noteq> [])"

fun py_len :: "pyval \<Rightarrow> exc + nat" where
  "py_len (PStr s) = Inr (length s)"
| "py_len (PList xs) = Inr (length xs)"
| "py_len (PDict kvs) = Inr (length (remdups (map fst kvs)))"
| "py_len v = Inl TypeError"

text \<open>\<^verbatim>\<open>v[:n]\<close>: a prefix of a string or of a list; any other value raises.\<close>

fun py_slice :: "pyval \<Rightarrow> nat \<Rightarrow> exc + pyval" where
  "py_slice (PStr s) n = Inr (PStr (take n s))"
| "py_slice (PList xs) n = Inr (PList (take n xs))"
| "py_slice v n = Inl TypeError"

subsection \<open>Characters\<close>

definition is_space :: "char \<Rightarrow> bool" where
  "is_space c = (let k = (of_char c :: nat) in
     (9 \<le> k \<and> k \<le> 13) \<or> (28 \<le> k \<and> k \<le> 32) \<or> k = 133 \<or> k = 160)"

definition is_digit :: "char \<Rightarrow> bool" where
  "is_digit c = (48 \<le> (of_char c :: nat) \<and> (of_char c :: nat) \<le> 57)"

definition is_upper :: "char \<Rightarrow> bool" where
  "is_upper c = (65 \<le> (of_char c :: nat) \<and> (of_char c :: nat) \<le> 90)"

definition is_lower :: "char \<Rightarrow> bool" where
  "is_lower c = (97 \<le> (of_char c :: nat) \<and> (of_char c :: nat) \<le> 122)"

definition is_alpha :: "char \<Rightarrow> bool" where
  "is_alpha c = (is_upper c \<or> is_lower c)"

definition digit_val :: "char \<Rightarrow> nat" where
  "digit_val c = of_char c - 48"

definition lower_char :: "char \<Rightarrow> char" where
  "lower_char c = (if is_upper c then char_of ((of_char c :: nat) + 32) else c)"

definition strip :: "string \<Rightarrow> string" where
  "strip s = rev (dropWhile is_space (rev (dropWhile is_space s)))"

text \<open>
  \<^verbatim>\<open>int\<close> and \<^verbatim>\<open>float\<close> skip fewer characters around a literal than
  \<^verbatim>\<open>str.strip\<close> does: the ASCII blanks (tab to carriage return, and the space) and
  the two other spaces below 256, but not the separators U+001C to U+001F.
\<close>

definition is_num_space :: "char \<Rightarrow> bool" where
  "is_num_space c = (let k = (of_char c :: nat) in
     (9 \<le> k \<and> k \<le> 13) \<or> k = 32 \<or> k = 133 \<or> k = 160)"

definition num_strip :: "string \<Rightarrow> string" where
  "num_strip s = rev (dropWhile is_num_space (rev (dropWhile is_num_space s)))"

subsection \<open>Rounding to a double\<close>

text \<open>
  \<^verbatim>\<open>float\<close> of an \<^verbatim>\<open>int\<close> or of a decimal literal is the nearest double, ties to
  even: 53 bits of mantissa, the smallest quantum \<open>2 powi - 1074\<close>, and overflow from
  \<open>2 powi 1024\<close> on. \<open>ilog2 a\<close> is \<open>\<lfloor>log 2 a\<rfloor>\<close> for a positive rational.
\<close>

definition ilog2 :: "rat \<Rightarrow> int" where
  "ilog2 a = (if 1 \<le> a then bitlen \<lfloor>a\<rfloor> - 1 else - bitlen (\<lceil>1 / a\<rceil> - 1))"

definition round_half_even :: "rat \<Rightarrow> int" where
  "round_half_even x = (let f = \<lfloor>x\<rfloor>; d = x - of_int f in
     if d < 1 / 2 then f else if 1 / 2 < d then f + 1 else if even f then f else f + 1)"

definition round_double :: "rat \<Rightarrow> pyfloat" where
  "round_double x = (if x = 0 then Fin 0 else
     let a = \<bar>x\<bar>;
         e = max (ilog2 a - 52) (- 1074);
         m = round_half_even (a / 2 powi e);
         y = of_int m * 2 powi e
     in if 2 powi 1024 \<le> y then (if x < 0 then NegInf else PosInf)
        else Fin (if x < 0 then - y else y))"

subsection \<open>\<^verbatim>\<open>int(x)\<close> and \<^verbatim>\<open>float(x)\<close>\<close>

text \<open>A run of digits, single underscores allowed between two digits.\<close>

fun digitpart :: "string \<Rightarrow> bool" where
  "digitpart [] = False"
| "digitpart [c] = is_digit c"
| "digitpart (c # d # cs) =
     (is_digit c \<and> (if d = CHR ''_'' then cs \<noteq> [] \<and> digitpart cs else digitpart (d # cs)))"

definition digits_val :: "string \<Rightarrow> nat" where
  "digits_val s = foldl (\<lambda>n c. if c = CHR ''_'' then n else 10 * n + digit_val c) 0 s"

definition split_sign :: "string \<Rightarrow> bool \<times> string" where
  "split_sign s = (case s of
       [] \<Rightarrow> (False, [])
     | c # cs \<Rightarrow> if c = CHR ''-'' then (True, cs) else if c = CHR ''+'' then (False, cs)
                else (False, s))"

text \<open>
  \<^verbatim>\<open>int(s)\<close> for a string: blanks, an optional sign, digits, blanks. A literal of
  more than 4300 digits (leading zeros counted, underscores not) is refused: the
  interpreter's limit for the conversion of a string to an \<^verbatim>\<open>int\<close>.
\<close>

definition parse_int :: "string \<Rightarrow> exc + int" where
  "parse_int s = (let (neg, body) = split_sign (num_strip s) in
     if digitpart body \<and> length (filter is_digit body) \<le> 4300
     then Inr (if neg then - int (digits_val body) else int (digits_val body))
     else Inl ValueError)"

text \<open>
  \<^verbatim>\<open>float(s)\<close> for a string: blanks, an optional sign, then \<^verbatim>\<open>inf\<close>,
  \<^verbatim>\<open>infinity\<close> or \<^verbatim>\<open>nan\<close> in any case, or digits with an optional point and an
  optional exponent.
\<close>

definition parse_exponent :: "string \<Rightarrow> int option" where
  "parse_exponent s = (let (neg, body) = split_sign s in
     if digitpart body
     then Some (if neg then - int (digits_val body) else int (digits_val body))
     else None)"

definition parse_mantissa :: "string \<Rightarrow> rat option" where
  "parse_mantissa m = (let ip = takeWhile (\<lambda>c. c \<noteq> CHR ''.'') m;
                          r = dropWhile (\<lambda>c. c \<noteq> CHR ''.'') m
     in if r = [] then (if digitpart ip then Some (of_nat (digits_val ip)) else None)
        else let fp = tl r; k = length (filter is_digit fp) in
          if (ip = [] \<or> digitpart ip) \<and> (fp = [] \<or> digitpart fp) \<and> \<not> (ip = [] \<and> fp = [])
          then Some (of_nat (digits_val ip) + of_nat (digits_val fp) / 10 ^ k)
          else None)"

definition parse_decimal :: "string \<Rightarrow> rat option" where
  "parse_decimal s = (let is_e = (\<lambda>c. c = CHR ''e'' \<or> c = CHR ''E'');
                         m = takeWhile (\<lambda>c. \<not> is_e c) s;
                         r = dropWhile (\<lambda>c. \<not> is_e c) s
     in case parse_mantissa m of
          None \<Rightarrow> None
        | Some q \<Rightarrow> if r = [] then Some q
                    else (case parse_exponent (tl r) of
                            None \<Rightarrow> None
                          | Some k \<Rightarrow> Some (q * 10 powi k)))"

definition parse_float :: "string \<Rightarrow> exc + pyfloat" where
  "parse_float s = (let (neg, body) = split_sign (num_strip s); low = map lower_char body in
     if low = ''inf'' \<or> low = ''infinity'' then Inr (if neg then NegInf else PosInf)
     else if low = ''nan'' then Inr NaN
     else case parse_decimal body of
            None \<Rightarrow> Inl ValueError
          | Some q \<Rightarrow> Inr (round_double (if neg then - q else q)))"

fun py_float :: "pyval \<Rightarrow> exc + pyfloat" where
  "py_float (PFloat f) = Inr f"
| "py_float (PInt n) =
     (case round_double (of_int n) of Fin x \<Rightarrow> Inr (Fin x) | _ \<Rightarrow> Inl OverflowError)"
| "py_float (PBool b) = Inr (Fin (if b then 1 else 0))"
| "py_float (PStr s) = parse_float s"
| "py_float v = Inl TypeError"

text \<open>\<^verbatim>\<open>int\<close> of a float drops the fraction (towards zero).\<close>

fun py_int :: "pyval \<Rightarrow> exc + int" where
  "py_int (PInt n) = Inr n"
| "py_int (PBool b) = Inr (if b then 1 else 0)"
| "py_int (PFloat (Fin x)) = Inr (if 0 \<le> x then \<lfloor>x\<rfloor> else \<lceil>x\<rceil>)"
| "py_int (PFloat NaN) = Inl ValueError"
| "py_int (PFloat f) = Inl OverflowError"
| "py_int (PStr s) = parse_int s"
| "py_int v = Inl TypeError"

text \<open>Python compares an \<^verbatim>\<open>int\<close> with a \<^verbatim>\<open>float\<close> exactly; every comparison with NaN is false.\<close>

fun float_lt :: "pyfloat \<Rightarrow> pyfloat \<Rightarrow> bool" where
  "float_lt NaN y = False"
| "float_lt x NaN = False"
| "float_lt (Fin x) (Fin y) = (x < y)"
| "float_lt x PosInf = (x \<noteq> PosInf)"
| "float_lt NegInf y = (y \<noteq> NegInf)"
| "float_lt x y = False"

fun float_le :: "pyfloat \<Rightarrow> pyfloat \<Rightarrow> bool" where
  "float_le NaN y = False"
| "float_le x NaN = False"
| "float_le (Fin x) (Fin y) = (x \<le> y)"
| "float_le x PosInf = True"
| "float_le NegInf y = True"
| "float_le x y = False"

section \<open>Utilities\<close>

text \<open>
  The pattern of \<^verbatim>\<open>validate_email\<close> is a sequence of character classes, each taken
  once or at least \<open>n\<close> times, closed by \<^verbatim>\<open>$\<close>, which matches at the end of the string
  and before a newline that ends it. \<open>rx_match\<close> says whether some way of matching the
  items consumes the string, which is when \<^verbatim>\<open>re.match\<close> does not return \<^verbatim>\<open>None\<close>.
\<close>

datatype rx_item = One "char \<Rightarrow> bool" | AtLeast nat "char \<Rightarrow> bool"

fun rx_match :: "rx_item list \<Rightarrow> string \<Rightarrow> bool" where
  "rx_match [] s = (s = [] \<or> s = [CHR 0x0A])"
| "rx_match (One p # r) [] = False"
| "rx_match (One p # r) (c # cs) = (p c \<and> rx_match r cs)"
| "rx_match (AtLeast n p # r) [] = (n = 0 \<and> rx_match r [])"
| "rx_match (AtLeast n p # r) (c # cs) =
     ((p c \<and> rx_match (AtLeast (n - 1) p # r) cs) \<or> (n = 0 \<and> rx_match r (c # cs)))"

definition email_pattern :: "rx_item list" where
  "email_pattern =
    [AtLeast 1 (\<lambda>c. is_alpha c \<or> is_digit c \<or> c = CHR ''.'' \<or> c = CHR ''_'' \<or> c = CHR ''%''
                     \<or> c = CHR ''+'' \<or> c = CHR ''-''),
     One (\<lambda>c. c = CHR ''@''),
     AtLeast 1 (\<lambda>c. is_alpha c \<or> is_digit c \<or> c = CHR ''.'' \<or> c = CHR ''-''),
     One (\<lambda>c. c = CHR ''.''),
     AtLeast 2 is_alpha]"

text \<open>\<^verbatim>\<open>re.match\<close> raises \<^verbatim>\<open>TypeError\<close> on anything but a string.\<close>

fun validate_email :: "pyval \<Rightarrow> exc + bool" where
  "validate_email (PStr s) = Inr (rx_match email_pattern s)"
| "validate_email v = Inl TypeError"

definition validate_price :: "pyval \<Rightarrow> bool" where
  "validate_price price = (case py_float price of
       Inl e \<Rightarrow> False
     | Inr p \<Rightarrow> float_lt (Fin 0) p \<and> float_le p (Fin 999999))"

definition validate_rating :: "pyval \<Rightarrow> bool" where
  "validate_rating rating = (case py_int rating of
       Inl e \<Rightarrow> False
     | Inr r \<Rightarrow> 1 \<le> r \<and> r \<le> 5)"

section \<open>Models\<close>

text \<open>
  One record per table, one field per column; a nullable column is an \<open>option\<close>. The
  \<^verbatim>\<open>created_at\<close> columns are left out: they are filled from the clock and no handler
  modelled here reads them.
\<close>

record User =
  u_id :: int
  u_username :: string
  u_email :: string
  u_password :: string
  u_bio :: "string option"
  u_avatar_url :: "string option"
  u_is_artist :: bool

record Post =
  p_id :: int
  p_title :: string
  p_description :: "string option"
  p_image_url :: string
  p_price :: "pyfloat option"
  p_is_for_sale :: bool
  p_user_id :: int

record Commission =
  c_id :: int
  c_title :: string
  c_description :: "string option"
  c_price :: pyfloat
  c_artist_id :: int

record Review =
  r_id :: int
  r_rating :: int
  r_comment :: "string option"
  r_user_id :: int
  r_post_id :: int

record Favorite =
  f_id :: int
  f_user_id :: int
  f_post_id :: int

record Order =
  o_id :: int
  o_buyer_id :: int
  o_post_id :: int
  o_price :: pyfloat
  o_status :: string

text \<open>The committed content of the database: the rows of each table, in rowid order.\<close>

record store =
  users :: "User list"
  posts :: "Post list"
  commissions :: "Commission list"
  reviews :: "Review list"
  favorites :: "Favorite list"
  orders :: "Order list"

definition empty_store :: store where
  "empty_store = \<lparr>users = [], posts = [], commissions = [], reviews = [],
                    favorites = [], orders = []\<rparr>"

text \<open>
  An integer primary key of SQLite without \<^verbatim>\<open>AUTOINCREMENT\<close>: one more than the
  largest id in use, 1 in an empty table.
\<close>

definition next_id :: "int list \<Rightarrow> int" where
  "next_id ids = fold max ids 0 + 1"

text \<open>
  What SQLite accepts as the parameter of a text column: a string. A list or a dict
  cannot be bound, and the flush raises.
\<close>

fun bind_text :: "pyval \<Rightarrow> exc + string" where
  "bind_text (PStr s) = Inr s"
| "bind_text v = Inl DBError"

text \<open>\<^verbatim>\<open>get_or_404\<close> and \<^verbatim>\<open>first_or_404\<close>: the row, or \<^verbatim>\<open>abort(404)\<close>.\<close>

definition first_or_404 :: "('r \<Rightarrow> bool) \<Rightarrow> 'r list \<Rightarrow> exc + 'r" where
  "first_or_404 P rows = (case find P rows of None \<Rightarrow> Inl NotFound | Some r \<Rightarrow> Inr r)"

section \<open>Requests and responses\<close>

text \<open>
  The session carries at most a \<^verbatim>\<open>user_id\<close>. The body of a request is the JSON object
  \<^verbatim>\<open>request.get_json()\<close> returns, a finite map from field names to values.
\<close>

type_synonym session = "int option"

type_synonym json = "string \<Rightarrow> pyval option"

datatype body = Success "(string \<times> pyval) list" | Error string | ErrorExc exc

type_synonym response = "body \<times> nat"

text \<open>\<^verbatim>\<open>data.get(k)\<close>, \<^verbatim>\<open>data.get(k, d)\<close> and \<^verbatim>\<open>data[k]\<close>.\<close>

definition dget :: "json \<Rightarrow> string \<Rightarrow> pyval" where
  "dget data k = (case data k of None \<Rightarrow> PNone | Some v \<Rightarrow> v)"

definition dget_or :: "json \<Rightarrow> string \<Rightarrow> pyval \<Rightarrow> pyval" where
  "dget_or data k d = (case data k of None \<Rightarrow> d | Some v \<Rightarrow> v)"

definition dindex :: "json \<Rightarrow> string \<Rightarrow> exc + pyval" where
  "dindex data k = (case data k of None \<Rightarrow> Inl KeyError | Some v \<Rightarrow> Inr v)"

text \<open>
  \<^verbatim>\<open>try: ... except Exception as e: db.session.rollback(); return ..., 500\<close>. The body of
  a handler returns its response and the store it has committed; when it raises, or
  returns before \<^verbatim>\<open>db.session.commit()\<close>, the store is the one the request found,
  since the session of a request is dropped when the request ends.
\<close>

definition attempt :: "store \<Rightarrow> exc + (response \<times> store) \<Rightarrow> response \<times> store" where
  "attempt s r = (case r of Inl e \<Rightarrow> ((ErrorExc e, 500), s) | Inr out \<Rightarrow> out)"

definition login_needed :: "store \<Rightarrow> response \<times> store" where
  "login_needed s = ((Error ''Login required'', 401), s)"

definition get_current_user :: "store \<Rightarrow> session \<Rightarrow> User option" where
  "get_current_user s sess = (case sess of
       None \<Rightarrow> None
     | Some uid \<Rightarrow> find (\<lambda>u. u_id u = uid) (users s))"

text \<open>An attribute of \<^verbatim>\<open>user\<close>, which is \<^verbatim>\<open>None\<close> when the session names no row.\<close>

definition attr :: "User option \<Rightarrow> (User \<Rightarrow> 'a) \<Rightarrow> exc + 'a" where
  "attr user f = (case user of None \<Rightarrow> Inl AttributeError | Some u \<Rightarrow> Inr (f u))"

text \<open>
  An attribute assigned from the request (\<open>Some v\<close>) is bound when the session is
  flushed; one that was not assigned keeps the value of the row.
\<close>

fun assigned :: "pyval option \<Rightarrow> 'a \<Rightarrow> (pyval \<Rightarrow> exc + 'a) \<Rightarrow> exc + 'a" where
  "assigned None cur f = Inr cur"
| "assigned (Some v) cur f = f v"

definition bind_text_opt :: "pyval \<Rightarrow> exc + string option" where
  "bind_text_opt v = then_do (bind_text v) (\<lambda>t. Inr (Some t))"

section \<open>Identity\<close>

text \<open>
  \<^verbatim>\<open>generate_password_hash\<close> and \<^verbatim>\<open>check_password_hash\<close> of werkzeug are taken as
  the parameters \<open>gen\<close> and \<open>chk\<close>; both call \<^verbatim>\<open>password.encode()\<close>, which raises on
  a password that is not a string.
\<close>

definition register ::
  "(string \<Rightarrow> string) \<Rightarrow> store \<Rightarrow> session \<Rightarrow> json \<Rightarrow> response \<times> store \<times> session" where
  "register gen s sess data =
    (case
      (if \<not> truthy (dget data ''username'') \<or> \<not> truthy (dget data ''email'')
          \<or> \<not> truthy (dget data ''password'')
       then Inr ((Error ''Missing required fields'', 400), s, sess)
       else
       then_do (py_len (dget data ''username'')) (\<lambda>n.
       if n < 3 \<or> n > 80
       then Inr ((Error ''Username must be 3-80 characters'', 400), s, sess)
       else
       then_do (validate_email (dget data ''email'')) (\<lambda>ok.
       if \<not> ok then Inr ((Error ''Invalid email format'', 400), s, sess)
       else
       then_do (py_len (dget data ''password'')) (\<lambda>m.
       if m < 6
       then Inr ((Error ''Password must be at least 6 characters'', 400), s, sess)
       else
       then_do (bind_text (dget data ''username'')) (\<lambda>username.
       if find (\<lambda>u. u_username u = username) (users s) \<noteq> None
       then Inr ((Error ''Username already exists'', 400), s, sess)
       else
       then_do (bind_text (dget data ''email'')) (\<lambda>email.
       if find (\<lambda>u. u_email u = email) (users s) \<noteq> None
       then Inr ((Error ''Email already registered'', 400), s, sess)
       else
       then_do (case dget data ''password'' of
                  PStr pw \<Rightarrow> Inr (gen pw)
                | _ \<Rightarrow> Inl AttributeError)
         (\<lambda>hashed.
       let user = \<lparr>u_id = next_id (map u_id (users s)), u_username = username,
                    u_email = email, u_password = hashed, u_bio = None,
                    u_avatar_url = None, u_is_artist = False\<rparr>
       in Inr ((Success [(''message'', PStr ''Registration successful'')], 201),
               s\<lparr>users := users s @ [user]\<rparr>, Some (u_id user)))))))))
     of Inl e \<Rightarrow> ((ErrorExc e, 500), s, sess)
      | Inr out \<Rightarrow> out)"

text \<open>
  The username of a login goes into the query as it is. SQLite binds a string, an
  integer or a float, and compares the text column with the text of the parameter, so
  an integer of 64 bits is looked up by its decimal digits (a larger one cannot be
  bound); \<^verbatim>\<open>None\<close> is \<^verbatim>\<open>NULL\<close> and equals nothing; a list or an object cannot be
  bound. The text SQLite gives a float is the
  parameter \<open>real_text\<close>.
\<close>

function digits_of :: "nat \<Rightarrow> string" where
  "digits_of n = (if n < 10 then [char_of (48 + n)]
                  else digits_of (n div 10) @ [char_of (48 + n mod 10)])"
  by pat_completeness auto
termination
  by (relation "measure id") auto

declare digits_of.simps [simp del]

definition show_int :: "int \<Rightarrow> string" where
  "show_int n = (if n < 0 then CHR ''-'' # digits_of (nat (- n)) else digits_of (nat n))"

fun sql_text :: "(pyfloat \<Rightarrow> string) \<Rightarrow> pyval \<Rightarrow> exc + string option" where
  "sql_text real_text (PStr t) = Inr (Some t)"
| "sql_text real_text (PInt n) =
     (if - (2 ^ 63) \<le> n \<and> n < 2 ^ 63 then Inr (Some (show_int n)) else Inl OverflowError)"
| "sql_text real_text (PBool b) = Inr (Some (if b then ''1'' else ''0''))"
| "sql_text real_text (PFloat f) = Inr (if f = NaN then None else Some (real_text f))"
| "sql_text real_text PNone = Inr None"
| "sql_text real_text v = Inl DBError"

definition login ::
  "(pyfloat \<Rightarrow> string) \<Rightarrow> (string \<Rightarrow> string \<Rightarrow> bool) \<Rightarrow> store \<Rightarrow> session \<Rightarrow> json
     \<Rightarrow> response \<times> session" where
  "login real_text chk s sess data =
    (case
      (if \<not> truthy (dget data ''username'') \<or> \<not> truthy (dget data ''password'')
       then Inr ((Error ''Missing username or password'', 400), sess)
       else
       then_do (sql_text real_text (dget data ''username'')) (\<lambda>username.
       case (case username of
               None \<Rightarrow> None
             | Some t \<Rightarrow> find (\<lambda>u. u_username u = t) (users s)) of
         None \<Rightarrow> Inr ((Error ''Invalid credentials'', 401), sess)
       | Some user \<Rightarrow>
           then_do (case dget data ''password'' of
                      PStr pw \<Rightarrow> Inr (chk (u_password user) pw)
                    | _ \<Rightarrow> Inl AttributeError) (\<lambda>ok.
           if ok
           then Inr ((Success [(''message'', PStr ''Login successful'')], 200),
                     Some (u_id user))
           else Inr ((Error ''Invalid credentials'', 401), sess))))
     of Inl e \<Rightarrow> ((ErrorExc e, 500), sess)
      | Inr out \<Rightarrow> out)"

definition edit_profile :: "store \<Rightarrow> session \<Rightarrow> json \<Rightarrow> response \<times> store" where
  "edit_profile s sess data =
    (if sess = None then login_needed s else attempt s (
       let user = get_current_user s sess in
       then_do (case data ''bio'' of
                  None \<Rightarrow> Inr None
                | Some v \<Rightarrow> then_do (py_slice v 500) (\<lambda>x.
                            then_do (attr user u_id) (\<lambda>_. Inr (Some x)))) (\<lambda>bio.
       then_do (case data ''avatar_url'' of
                  None \<Rightarrow> Inr None
                | Some v \<Rightarrow> then_do (py_slice v 500) (\<lambda>x.
                            then_do (attr user u_id) (\<lambda>_. Inr (Some x)))) (\<lambda>avatar_url.
       then_do (case data ''is_artist'' of
                  None \<Rightarrow> Inr None
                | Some v \<Rightarrow> then_do (attr user u_id) (\<lambda>_. Inr (Some (truthy v)))) (\<lambda>is_artist.
       case user of
         None \<Rightarrow> Inr ((Success [(''message'', PStr ''Profile updated'')], 200), s)
       | Some u \<Rightarrow>
           then_do (assigned bio (u_bio u) bind_text_opt) (\<lambda>bio'.
           then_do (assigned avatar_url (u_avatar_url u) bind_text_opt) (\<lambda>avatar'.
           let u' = u\<lparr>u_bio := bio', u_avatar_url := avatar',
                      u_is_artist := (case is_artist of None \<Rightarrow> u_is_artist u | Some b \<Rightarrow> b)\<rparr>
           in Inr ((Success [(''message'', PStr ''Profile updated'')], 200),
                   s\<lparr>users := map (\<lambda>x. if u_id x = u_id u then u' else x) (users s)\<rparr>))))))))"

section \<open>Catalog\<close>

definition create_post :: "store \<Rightarrow> session \<Rightarrow> json \<Rightarrow> response \<times> store" where
  "create_post s sess data =
    (if sess = None then login_needed s else attempt s (
       let user = get_current_user s sess in
       if \<not> truthy (dget data ''title'') \<or> \<not> truthy (dget data ''image_url'')
       then Inr ((Error ''Title and image required'', 400), s)
       else
       then_do (py_len (dget data ''title'')) (\<lambda>n.
       if n > 200 then Inr ((Error ''Title too long'', 400), s)
       else
       if truthy (dget data ''price'') \<and> \<not> validate_price (dget data ''price'')
       then Inr ((Error ''Invalid price'', 400), s)
       else
       let title = dget data ''title'' in
       then_do (py_slice (dget_or data ''description'' (PStr [])) 1000) (\<lambda>description.
       then_do (py_slice (dget data ''image_url'') 500) (\<lambda>image_url.
       then_do (if truthy (dget data ''price'')
                then then_do (py_float (dget data ''price'')) (\<lambda>f. Inr (Some f))
                else Inr None) (\<lambda>price.
       let is_for_sale = truthy (dget_or data ''is_for_sale'' (PBool False)) in
       then_do (attr user u_id) (\<lambda>uid.
       then_do (bind_text title) (\<lambda>title'.
       then_do (bind_text_opt description) (\<lambda>description'.
       then_do (bind_text image_url) (\<lambda>image_url'.
       let post = \<lparr>p_id = next_id (map p_id (posts s)), p_title = title',
                    p_description = description', p_image_url = image_url',
                    p_price = price, p_is_for_sale = is_for_sale, p_user_id = uid\<rparr>
       in Inr ((Success [(''post_id'', PInt (p_id post))], 201),
               s\<lparr>posts := posts s @ [post]\<rparr>)))))))))))"

definition delete_post :: "store \<Rightarrow> session \<Rightarrow> int \<Rightarrow> response \<times> store" where
  "delete_post s sess post_id =
    (if sess = None then login_needed s else attempt s (
       let user = get_current_user s sess in
       then_do (first_or_404 (\<lambda>p. p_id p = post_id) (posts s)) (\<lambda>post.
       then_do (attr user u_id) (\<lambda>uid.
       if p_user_id post \<noteq> uid then Inr ((Error ''Unauthorized'', 403), s)
       else Inr ((Success [(''message'', PStr ''Post deleted'')], 200),
                 s\<lparr>posts := filter (\<lambda>p. p_id p \<noteq> p_id post) (posts s)\<rparr>)))))"

definition update_post :: "store \<Rightarrow> session \<Rightarrow> int \<Rightarrow> json \<Rightarrow> response \<times> store" where
  "update_post s sess post_id data =
    (if sess = None then login_needed s else attempt s (
       let user = get_current_user s sess in
       then_do (first_or_404 (\<lambda>p. p_id p = post_id) (posts s)) (\<lambda>post.
       then_do (attr user u_id) (\<lambda>uid.
       if p_user_id post \<noteq> uid then Inr ((Error ''Unauthorized'', 403), s)
       else
       then_do (case data ''title'' of
                  None \<Rightarrow> Inr None
                | Some v \<Rightarrow> then_do (py_slice v 200) (\<lambda>x. Inr (Some x))) (\<lambda>title.
       then_do (case data ''description'' of
                  None \<Rightarrow> Inr None
                | Some v \<Rightarrow> then_do (py_slice v 1000) (\<lambda>x. Inr (Some x))) (\<lambda>description.
       if (case data ''price'' of None \<Rightarrow> False | Some v \<Rightarrow> \<not> validate_price v)
       then Inr ((Error ''Invalid price'', 400), s)
       else
       then_do (case data ''price'' of
                  None \<Rightarrow> Inr (p_price post)
                | Some v \<Rightarrow> if truthy v then then_do (py_float v) (\<lambda>f. Inr (Some f))
                            else Inr None) (\<lambda>price.
       let is_for_sale = (case data ''is_for_sale'' of
                            None \<Rightarrow> p_is_for_sale post
                          | Some v \<Rightarrow> truthy v) in
       then_do (assigned title (p_title post) bind_text) (\<lambda>title'.
       then_do (assigned description (p_description post) bind_text_opt) (\<lambda>description'.
       let post' = post\<lparr>p_title := title', p_description := description',
                         p_price := price, p_is_for_sale := is_for_sale\<rparr>
       in Inr ((Success [], 200),
               s\<lparr>posts := map (\<lambda>p. if p_id p = p_id post then post' else p) (posts s)\<rparr>))))))))))"

text \<open>
  SQL \<^verbatim>\<open>LIKE\<close>, as \<^verbatim>\<open>ilike\<close> runs it on SQLite: \<^verbatim>\<open>%\<close> in the pattern
  stands for any run of characters and \<^verbatim>\<open>_\<close> for any one character, ASCII letters
  match in either case, and a \<^verbatim>\<open>NULL\<close> column matches nothing.
\<close>

fun like :: "string \<Rightarrow> string \<Rightarrow> bool" where
  "like [] s = (s = [])"
| "like (p # ps) [] = (p = CHR ''%'' \<and> like ps [])"
| "like (p # ps) (c # cs) =
     (if p = CHR ''%'' then like ps (c # cs) \<or> like (p # ps) cs
      else (p = CHR ''_'' \<or> p = c) \<and> like ps cs)"

definition ilike :: "string option \<Rightarrow> string \<Rightarrow> bool" where
  "ilike col pat = (case col of
       None \<Rightarrow> False
     | Some t \<Rightarrow> like (map lower_char pat) (map lower_char t))"

text \<open>
  \<^verbatim>\<open>paginate(page=page, per_page=n)\<close>: the rows of the page, or \<^verbatim>\<open>abort(404)\<close>
  for a page below 1 and for an empty page other than the first.
\<close>

definition paginate :: "'r list \<Rightarrow> int \<Rightarrow> nat \<Rightarrow> exc + 'r list" where
  "paginate rows page per_page =
    (if page < 1 then Inl NotFound
     else let items = take per_page (drop (nat (page - 1) * per_page) rows) in
       if items = [] \<and> page \<noteq> 1 then Inl NotFound else Inr items)"

datatype page = SearchPage "Post list option" "User list option" string | ErrorPage string

definition search :: "store \<Rightarrow> string \<Rightarrow> int \<Rightarrow> page \<times> nat" where
  "search s q page =
    (let query = take 100 (strip q) in
     if query = [] \<or> length query < 2 then (SearchPage None None [], 200)
     else
       case paginate (filter (\<lambda>p. ilike (Some (p_title p)) (''%'' @ query @ ''%'')
                                   \<or> ilike (p_description p) (''%'' @ query @ ''%''))
                             (posts s)) page 12 of
         Inl e \<Rightarrow> (ErrorPage ''Search error'', 500)
       | Inr found \<Rightarrow>
           (SearchPage (Some found)
              (Some (take 10 (filter (\<lambda>u. ilike (Some (u_username u)) (''%'' @ query @ ''%''))
                                     (users s))))
              query, 200))"

section \<open>Favorites and reviews\<close>

definition add_favorite :: "store \<Rightarrow> session \<Rightarrow> int \<Rightarrow> response \<times> store" where
  "add_favorite s sess post_id =
    (if sess = None then login_needed s else attempt s (
       let user = get_current_user s sess in
       then_do (first_or_404 (\<lambda>p. p_id p = post_id) (posts s)) (\<lambda>post.
       then_do (attr user u_id) (\<lambda>uid.
       if find (\<lambda>f. f_user_id f = uid \<and> f_post_id f = post_id) (favorites s) \<noteq> None
       then Inr ((Error ''Already favorited'', 400), s)
       else
       let favorite = \<lparr>f_id = next_id (map f_id (favorites s)), f_user_id = uid,
                        f_post_id = post_id\<rparr>
       in Inr ((Success [], 201), s\<lparr>favorites := favorites s @ [favorite]\<rparr>)))))"

definition remove_favorite :: "store \<Rightarrow> session \<Rightarrow> int \<Rightarrow> response \<times> store" where
  "remove_favorite s sess post_id =
    (if sess = None then login_needed s else attempt s (
       let user = get_current_user s sess in
       then_do (attr user u_id) (\<lambda>uid.
       then_do (first_or_404 (\<lambda>f. f_user_id f = uid \<and> f_post_id f = post_id) (favorites s))
         (\<lambda>fav.
       Inr ((Success [], 200),
            s\<lparr>favorites := filter (\<lambda>f. f_id f \<noteq> f_id fav) (favorites s)\<rparr>)))))"

definition create_review :: "store \<Rightarrow> session \<Rightarrow> int \<Rightarrow> json \<Rightarrow> response \<times> store" where
  "create_review s sess post_id data =
    (if sess = None then login_needed s else attempt s (
       let user = get_current_user s sess in
       if \<not> validate_rating (dget data ''rating'')
       then Inr ((Error ''Rating must be 1-5'', 400), s)
       else
       then_do (then_do (dindex data ''rating'') py_int) (\<lambda>rating.
       then_do (py_slice (dget_or data ''comment'' (PStr [])) 500) (\<lambda>comment.
       then_do (attr user u_id) (\<lambda>uid.
       then_do (bind_text_opt comment) (\<lambda>comment'.
       let review = \<lparr>r_id = next_id (map r_id (reviews s)), r_rating = rating,
                      r_comment = comment', r_user_id = uid, r_post_id = post_id\<rparr>
       in Inr ((Success [], 201), s\<lparr>reviews := reviews s @ [review]\<rparr>)))))))"

section \<open>Orders\<close>

text \<open>
  \<^verbatim>\<open>Order.price\<close> is declared \<^verbatim>\<open>nullable=False\<close>: the insert of an order whose
  price is \<^verbatim>\<open>None\<close> fails. \<^verbatim>\<open>status\<close> takes its default.
\<close>

definition create_order :: "store \<Rightarrow> session \<Rightarrow> int \<Rightarrow> response \<times> store" where
  "create_order s sess post_id =
    (if sess = None then login_needed s else attempt s (
       let user = get_current_user s sess in
       then_do (first_or_404 (\<lambda>p. p_id p = post_id) (posts s)) (\<lambda>post.
       if \<not> p_is_for_sale post then Inr ((Error ''Post not for sale'', 400), s)
       else
       then_do (attr user u_id) (\<lambda>uid.
       if p_user_id post = uid then Inr ((Error ''Cannot buy own post'', 400), s)
       else
       then_do (case p_price post of None \<Rightarrow> Inl DBError | Some x \<Rightarrow> Inr x) (\<lambda>price.
       let order = \<lparr>o_id = next_id (map o_id (orders s)), o_buyer_id = uid,
                     o_post_id = post_id, o_price = price, o_status = ''pending''\<rparr>
       in Inr ((Success [(''order_id'', PInt (o_id order))], 201),
               s\<lparr>orders := orders s @ [order]\<rparr>))))))"

section \<open>Commissions\<close>

definition create_commission :: "store \<Rightarrow> session \<Rightarrow> json \<Rightarrow> response \<times> store" where
  "create_commission s sess data =
    (if sess = None then login_needed s else attempt s (
       let user = get_current_user s sess in
       then_do (attr user u_is_artist) (\<lambda>artist.
       if \<not> artist then Inr ((Error ''Only artists can create commissions'', 403), s)
       else
       if \<not> truthy (dget data ''title'') \<or> \<not> validate_price (dget data ''price'')
       then Inr ((Error ''Title and valid price required'', 400), s)
       else
       then_do (py_slice (dget data ''title'') 200) (\<lambda>title.
       then_do (py_slice (dget_or data ''description'' (PStr [])) 1000) (\<lambda>description.
       then_do (then_do (dindex data ''price'') py_float) (\<lambda>price.
       then_do (attr user u_id) (\<lambda>uid.
       then_do (bind_text title) (\<lambda>title'.
       then_do (bind_text_opt description) (\<lambda>description'.
       let commission = \<lparr>c_id = next_id (map c_id (commissions s)), c_title = title',
                          c_description = description', c_price = price, c_artist_id = uid\<rparr>
       in Inr ((Success [(''commission_id'', PInt (c_id commission))], 201),
               s\<lparr>commissions := commissions s @ [commission]\<rparr>))))))))))"

definition delete_commission :: "store \<Rightarrow> session \<Rightarrow> int \<Rightarrow> response \<times> store" where
  "delete_commission s sess commission_id =
    (if sess = None then login_needed s else attempt s (
       let user = get_current_user s sess in
       then_do (first_or_404 (\<lambda>c. c_id c = commission_id) (commissions s)) (\<lambda>commission.
       then_do (attr user u_id) (\<lambda>uid.
       if c_artist_id commission \<noteq> uid then Inr ((Error ''Unauthorized'', 403), s)
       else Inr ((Success [], 200),
                 s\<lparr>commissions :=
                     filter (\<lambda>c. c_id c \<noteq> c_id commission) (commissions s)\<rparr>)))))"

section \<open>Demo data\<close>

definition sample_posts :: "int \<Rightarrow> int \<Rightarrow> Post list" where
  "sample_posts i uid =
    [\<lparr>p_id = i, p_title = ''Abstract Watercolor Series'',
      p_description = Some ''Beautiful abstract watercolor painting with flowing colors and organic shapes.'',
      p_image_url = ''https://images.unsplash.com/photo-1561214115-6d2f1b0609fa?w=400&h=300&fit=crop'',
      p_price = Some (Fin 150), p_is_for_sale = True, p_user_id = uid\<rparr>,
     \<lparr>p_id = i + 1, p_title = ''Digital Portrait Commission'',
      p_description = Some ''Custom digital portrait of your favorite characters or people.'',
      p_image_url = ''https://images.unsplash.com/photo-1561070791-2526d30994b5?w=400&h=300&fit=crop'',
      p_price = Some (Fin 75), p_is_for_sale = True, p_user_id = uid\<rparr>,
     \<lparr>p_id = i + 2, p_title = ''Landscape Oil Painting'',
      p_description = Some ''Serene mountain landscape captured in oils. Available for commissioning.'',
      p_image_url = ''https://images.unsplash.com/photo-1561214115-6d2f1b0609fa?w=400&h=300&fit=crop'',
      p_price = Some (Fin 250), p_is_for_sale = True, p_user_id = uid\<rparr>,
     \<lparr>p_id = i + 3, p_title = ''Graphic Design Portfolio'',
      p_description = Some ''Collection of modern graphic design work - logos, branding, and layouts.'',
      p_image_url = ''https://images.unsplash.com/photo-1561070791-2526d30994b5?w=400&h=300&fit=crop'',
      p_price = None, p_is_for_sale = False, p_user_id = uid\<rparr>,
     \<lparr>p_id = i + 4, p_title = ''Character Illustration'',
      p_description = Some ''Original character design with detailed costume and expression.'',
      p_image_url = ''https://images.unsplash.com/photo-1561214115-6d2f1b0609fa?w=400&h=300&fit=crop'',
      p_price = Some (Fin 120), p_is_for_sale = True, p_user_id = uid\<rparr>]"

text \<open>
  The demo user is inserted without a look at the e-mail addresses in use: the unique
  constraint of the column fails the insert when the address is taken.
\<close>

definition seed_data :: "(string \<Rightarrow> string) \<Rightarrow> store \<Rightarrow> response \<times> store" where
  "seed_data gen s = attempt s (
     then_do (case find (\<lambda>u. u_username u = ''demo_artist'') (users s) of
                Some u \<Rightarrow> Inr (u, s)
              | None \<Rightarrow>
                  if find (\<lambda>u. u_email u = ''demo@example.com'') (users s) \<noteq> None
                  then Inl DBError
                  else
                    let u = \<lparr>u_id = next_id (map u_id (users s)),
                             u_username = ''demo_artist'', u_email = ''demo@example.com'',
                             u_password = gen ''password123'',
                             u_bio = Some ''Demo artist showcasing the marketplace'',
                             u_avatar_url = None, u_is_artist = True\<rparr>
                    in Inr (u, s\<lparr>users := users s @ [u]\<rparr>)) (\<lambda>(demo_user, s1).
     Inr ((Success [(''message'', PStr ''Demo data created'')], 200),
          if posts s1 = []
          then s1\<lparr>posts := sample_posts (next_id (map p_id (posts s1))) (u_id demo_user)\<rparr>
          else s1)))"

section \<open>Runs\<close>

text \<open>
  The requests that can change the store, each sent with some session. \<open>run\<close> gives
  the store after a list of requests; the other routes only read.
\<close>

datatype request =
    Register json
  | EditProfile json
  | CreatePost json
  | DeletePost int
  | UpdatePost int json
  | AddFavorite int
  | RemoveFavorite int
  | CreateReview int json
  | CreateOrder int
  | CreateCommission json
  | DeleteCommission int
  | SeedData

fun step :: "(string \<Rightarrow> string) \<Rightarrow> store \<Rightarrow> session \<times> request \<Rightarrow> store" where
  "step gen s (sess, Register data) = fst (snd (register gen s sess data))"
| "step gen s (sess, EditProfile data) = snd (edit_profile s sess data)"
| "step gen s (sess, CreatePost data) = snd (create_post s sess data)"
| "step gen s (sess, DeletePost i) = snd (delete_post s sess i)"
| "step gen s (sess, UpdatePost i data) = snd (update_post s sess i data)"
| "step gen s (sess, AddFavorite i) = snd (add_favorite s sess i)"
| "step gen s (sess, RemoveFavorite i) = snd (remove_favorite s sess i)"
| "step gen s (sess, CreateReview i data) = snd (create_review s sess i data)"
| "step gen s (sess, CreateOrder i) = snd (create_order s sess i)"
| "step gen s (sess, CreateCommission data) = snd (create_commission s sess data)"
| "step gen s (sess, DeleteCommission i) = snd (delete_commission s sess i)"
| "step gen s (sess, SeedData) = snd (seed_data gen s)"

definition run :: "(string \<Rightarrow> string) \<Rightarrow> store \<Rightarrow> (session \<times> request) list \<Rightarrow> store" where
  "run gen s reqs = foldl (step gen) s reqs"

section \<open>A small marketplace\<close>

text \<open>
  The store of the end-to-end scenario: alice, an artist, has posted \<open>sky\<close> for 50,
  a second post for sale without a price, and a commission offer; bob has registered.
  \<open>demo_hash\<close> and \<open>demo_check\<close> stand in for the hash and its verification,
  \<open>demo_real_text\<close> for the text of a float.
\<close>

definition demo_hash :: "string \<Rightarrow> string" where
  "demo_hash pw = ''hash:'' @ pw"

definition demo_check :: "string \<Rightarrow> string \<Rightarrow> bool" where
  "demo_check h pw = (h = ''hash:'' @ pw)"

definition demo_real_text :: "pyfloat \<Rightarrow> string" where
  "demo_real_text f = []"

definition alice :: User where
  "alice = \<lparr>u_id = 1, u_username = ''alice'', u_email = ''alice@x.com'',
            u_password = ''hash:secret1'', u_bio = None, u_avatar_url = None,
            u_is_artist = True\<rparr>"

definition bob :: User where
  "bob = \<lparr>u_id = 2, u_username = ''bob'', u_email = ''bob@x.com'',
          u_password = ''hash:hunter22'', u_bio = None, u_avatar_url = None,
          u_is_artist = False\<rparr>"

definition sky :: Post where
  "sky = \<lparr>p_id = 1, p_title = ''Sky'', p_description = Some [],
          p_image_url = ''http://x/1.png'', p_price = Some (Fin 50),
          p_is_for_sale = True, p_user_id = 1\<rparr>"

definition sketch :: Post where
  "sketch = \<lparr>p_id = 2, p_title = ''Sketch'', p_description = Some [],
             p_image_url = ''http://x/2.png'', p_price = None,
             p_is_for_sale = True, p_user_id = 1\<rparr>"

definition logo :: Commission where
  "logo = \<lparr>c_id = 1, c_title = ''Logo'', c_description = Some [], c_price = Fin 30,
           c_artist_id = 1\<rparr>"

definition market :: store where
  "market = \<lparr>users = [alice, bob], posts = [sky, sketch], commissions = [logo],
             reviews = [], favorites = [], orders = []\<rparr>"

text \<open>The requests that build \<open>market\<close> from the empty store.\<close>

definition market_requests :: "(session \<times> request) list" where
  "market_requests =
    [(None, Register (map_of [(''username'', PStr ''alice''), (''email'', PStr ''alice@x.com''),
                              (''password'', PStr ''secret1'')])),
     (None, Register (map_of [(''username'', PStr ''bob''), (''email'', PStr ''bob@x.com''),
                              (''password'', PStr ''hunter22'')])),
     (Some 1, EditProfile (map_of [(''is_artist'', PBool True)])),
     (Some 1, CreatePost (map_of [(''title'', PStr ''Sky''), (''image_url'', PStr ''http://x/1.png''),
                                  (''price'', PInt 50), (''is_for_sale'', PBool True)])),
     (Some 1, CreatePost (map_of [(''title'', PStr ''Sketch''),
                                  (''image_url'', PStr ''http://x/2.png''),
                                  (''is_for_sale'', PBool True)])),
     (Some 1, CreateCommission (map_of [(''title'', PStr ''Logo''), (''price'', PInt 30)]))]"

definition retitle_free :: json where
  "retitle_free = map_of [(''title'', PStr ''Night''), (''description'', PStr ''Stars''),
                          (''price'', PInt 0)]"

definition untyped_title :: json where
  "untyped_title = map_of [(''title'', PInt 5), (''price'', PInt 0)]"

definition reprice :: json where
  "reprice = map_of [(''title'', PStr ''Night''), (''price'', PInt 75)]"

definition number_title :: json where
  "number_title = map_of [(''title'', PInt 5), (''price'', PInt 75)]"



text \<open>At most one favorite per pair of a user and a post.\<close>

definition fav_key :: "Favorite \<Rightarrow> int \<times> int" where
  "fav_key f = (f_user_id f, f_post_id f)"

definition fav_unique :: "store \<Rightarrow> bool" where
  "fav_unique s = distinct (map fav_key (favorites s))"

text \<open>A computation that, when it returns, returns a store with the favorites of \<open>s\<close>.\<close>

definition frame :: "('o \<Rightarrow> store) \<Rightarrow> store \<Rightarrow> exc + 'o \<Rightarrow> bool" where
  "frame proj s m = (case m of Inl e \<Rightarrow> True | Inr out \<Rightarrow> favorites (proj out) = favorites s)"

definition alice_form :: json where
  "alice_form = map_of [(''username'', PStr ''alice''), (''email'', PStr ''alice@x.com''),
                        (''password'', PStr ''secret1'')]"

text \<open>
  What the specification says a search returns: the posts whose title or description
  contains the query as a substring, letters compared without case. \<open>contains q t\<close> is
  written from those words, to be compared with the \<^verbatim>\<open>LIKE\<close> of the code.
\<close>

fun contains :: "string \<Rightarrow> string \<Rightarrow> bool" where
  "contains q [] = (q = [])"
| "contains q (c # cs) = (take (length q) (c # cs) = q \<or> contains q cs)"

definition contains_ci :: "string \<Rightarrow> string \<Rightarrow> bool" where
  "contains_ci q t = contains (map lower_char q) (map lower_char t)"

definition post_matches :: "string \<Rightarrow> Post \<Rightarrow> bool" where
  "post_matches query p =
     (contains_ci query (p_title p)
      \<or> (case p_description p of None \<Rightarrow> False | Some d \<Rightarrow> contains_ci query d))"


section \<open>Properties\<close>

subsection \<open>Basic facts\<close>

lemma then_do_simps [simp]:
  "then_do (Inr x) f = f x" "then_do (Inl e) f = Inl e"
  by (simp_all add: then_do_def)

lemma attempt_simps [simp]:
  "attempt s (Inr out) = out" "attempt s (Inl e) = ((ErrorExc e, 500), s)"
  by (simp_all add: attempt_def)

lemma attr_simps [simp]:
  "attr (Some u) f = Inr (f u)" "attr None f = Inl AttributeError"
  by (simp_all add: attr_def)

lemma current_user_session:
  "get_current_user s sess = Some u \<Longrightarrow> \<exists>uid. sess = Some uid"
  by (cases sess) (simp_all add: get_current_user_def)

lemma first_or_404_Some [simp]: "find P rows = Some r \<Longrightarrow> first_or_404 P rows = Inr r"
  by (simp add: first_or_404_def)

lemma first_or_404_None [simp]: "find P rows = None \<Longrightarrow> first_or_404 P rows = Inl NotFound"
  by (simp add: first_or_404_def)

lemmas fixture_defs = market_def alice_def bob_def sky_def sketch_def logo_def

subsection \<open>Ownership\<close>

text \<open>
  C1. For a logged-in identity \<open>u\<close> (the session names the row \<open>u\<close>) and a post or a
  commission that exists and belongs to another user, \<open>update_post\<close>, \<open>delete_post\<close>
  and \<open>delete_commission\<close> answer 403 \<^verbatim>\<open>Unauthorized\<close> and return the store they
  were given, whatever the patch.
\<close>

theorem foreign_owner_forbidden:
  assumes "get_current_user s sess = Some u"
  shows "(find (\<lambda>p. p_id p = post_id) (posts s) = Some post \<and> p_user_id post \<noteq> u_id u \<longrightarrow>
            update_post s sess post_id data = ((Error ''Unauthorized'', 403), s) \<and>
            delete_post s sess post_id = ((Error ''Unauthorized'', 403), s)) \<and>
         (find (\<lambda>c. c_id c = commission_id) (commissions s) = Some commission
            \<and> c_artist_id commission \<noteq> u_id u \<longrightarrow>
            delete_commission s sess commission_id = ((Error ''Unauthorized'', 403), s))"
proof -
  from assms obtain uid where "sess = Some uid"
    using current_user_session by blast
  with assms show ?thesis
    by (simp add: update_post_def delete_post_def delete_commission_def)
qed

theorem foreign_owner_forbidden_witness:
  "get_current_user market (Some 2) = Some bob \<and>
   find (\<lambda>p. p_id p = 1) (posts market) = Some sky \<and> p_user_id sky \<noteq> u_id bob \<and>
   find (\<lambda>c. c_id c = 1) (commissions market) = Some logo \<and> c_artist_id logo \<noteq> u_id bob \<and>
   update_post market (Some 2) 1 retitle_free = ((Error ''Unauthorized'', 403), market) \<and>
   delete_post market (Some 2) 1 = ((Error ''Unauthorized'', 403), market) \<and>
   delete_commission market (Some 2) 1 = ((Error ''Unauthorized'', 403), market)"
proof -
  have u: "get_current_user market (Some 2) = Some bob"
    by (simp add: get_current_user_def fixture_defs)
  have p: "find (\<lambda>p. p_id p = 1) (posts market) = Some sky \<and> p_user_id sky \<noteq> u_id bob"
    by (simp add: fixture_defs)
  have c: "find (\<lambda>c. c_id c = 1) (commissions market) = Some logo
           \<and> c_artist_id logo \<noteq> u_id bob"
    by (simp add: fixture_defs)
  from foreign_owner_forbidden [OF u, of 1 sky retitle_free 1 logo] u p c
  show ?thesis by simp
qed

subsection \<open>A patch with an invalid price\<close>

lemma py_slice_error: "isl (py_slice v n) \<Longrightarrow> py_slice v n = Inl TypeError"
  by (cases v) simp_all

lemma slice_field_cases:
  fixes field :: "pyval option" and n :: nat
  obtains (absent) "field = None"
  | (bad) v where "field = Some v" "py_slice v n = Inl TypeError"
  | (good) v w where "field = Some v" "py_slice v n = Inr w"
proof (cases field)
  case None then show ?thesis by (rule absent)
next
  case (Some v)
  show ?thesis
  proof (cases "py_slice v n")
    case (Inl e)
    then have "py_slice v n = Inl TypeError" using py_slice_error [of v n] by simp
    with Some show ?thesis by (rule bad)
  next
    case (Inr w)
    with Some show ?thesis by (rule good)
  qed
qed

lemma not_valid_zero: "\<not> validate_price (PInt 0)"
  by (simp add: validate_price_def round_double_def)

text \<open>
  C2, as the code has it. For an existing post, its owner as the identity, and a patch
  whose \<^verbatim>\<open>price\<close> fails \<open>validate_price\<close>, \<open>update_post\<close> returns the store it was
  given: the title and the description of the patch were assigned to the row in memory
  only, and nothing is committed. The answer is 400 \<^verbatim>\<open>Invalid price\<close>, unless the
  title or the description of the patch is a value that cannot be sliced (not a string
  and not a list): the slice raises before the price is looked at, and the answer is 500.
\<close>

theorem invalid_price_rolls_back:
  assumes user: "get_current_user s sess = Some u"
    and post: "find (\<lambda>p. p_id p = post_id) (posts s) = Some post"
    and owner: "p_user_id post = u_id u"
    and price: "data ''price'' = Some v"
    and bad: "\<not> validate_price v"
  shows "update_post s sess post_id data =
           (if (case data ''title'' of None \<Rightarrow> False | Some t \<Rightarrow> isl (py_slice t 200))
               \<or> (case data ''description'' of None \<Rightarrow> False | Some d \<Rightarrow> isl (py_slice d 1000))
            then ((ErrorExc TypeError, 500), s)
            else ((Error ''Invalid price'', 400), s))"
proof -
  from user obtain uid where sess: "sess = Some uid"
    using current_user_session by blast
  show ?thesis
  proof (cases rule: slice_field_cases [where field = "data ''title''" and n = 200])
    case absent
    show ?thesis
      by (cases rule: slice_field_cases [where field = "data ''description''" and n = 1000])
         (simp_all add: update_post_def sess user [unfolded sess] post owner price bad absent)
  next
    case (bad v)
    then show ?thesis
      by (simp add: update_post_def sess user [unfolded sess] post owner)
  next
    case (good v w)
    show ?thesis
      by (cases rule: slice_field_cases [where field = "data ''description''" and n = 1000])
         (simp_all add: update_post_def sess user [unfolded sess] post owner price bad good)
  qed
qed

theorem invalid_price_rolls_back_witness:
  "get_current_user market (Some 1) = Some alice \<and>
   find (\<lambda>p. p_id p = 1) (posts market) = Some sky \<and>
   p_user_id sky = u_id alice \<and>
   retitle_free ''price'' = Some (PInt 0) \<and>
   \<not> validate_price (PInt 0) \<and>
   update_post market (Some 1) 1 retitle_free = ((Error ''Invalid price'', 400), market)"
proof -
  have u: "get_current_user market (Some 1) = Some alice"
    by (simp add: get_current_user_def fixture_defs)
  have p: "find (\<lambda>p. p_id p = 1) (posts market) = Some sky"
    by (simp add: fixture_defs)
  have ow: "p_user_id sky = u_id alice"
    by (simp add: fixture_defs)
  have pr: "retitle_free ''price'' = Some (PInt 0)"
    by (simp add: retitle_free_def)
  from invalid_price_rolls_back [of market "Some 1" alice 1 sky retitle_free "PInt 0"]
    u p ow pr not_valid_zero
  show ?thesis by (simp add: retitle_free_def)
qed

text \<open>
  The answer is not 400 for every such patch: when the title is the number 5,
  \<^verbatim>\<open>5[:200]\<close> raises, and the handler answers 500.
\<close>

theorem invalid_price_untyped_title:
  "get_current_user market (Some 1) = Some alice \<and>
   p_user_id sky = u_id alice \<and>
   untyped_title ''price'' = Some (PInt 0) \<and>
   \<not> validate_price (PInt 0) \<and>
   update_post market (Some 1) 1 untyped_title = ((ErrorExc TypeError, 500), market)"
  by (simp add: not_valid_zero update_post_def get_current_user_def fixture_defs
      untyped_title_def first_or_404_def)

subsection \<open>The price of a post\<close>

lemma valid_price_float:
  "validate_price v \<Longrightarrow> \<exists>x. py_float v = Inr (Fin x) \<and> 0 < x \<and> x \<le> 999999"
proof -
  assume a: "validate_price v"
  show ?thesis
  proof (cases "py_float v")
    case (Inl e)
    with a show ?thesis by (simp add: validate_price_def)
  next
    case (Inr p)
    with a have "float_lt (Fin 0) p \<and> float_le p (Fin 999999)"
      by (simp add: validate_price_def)
    with Inr show ?thesis by (cases p) simp_all
  qed
qed

lemma parse_float_empty: "parse_float [] = Inl ValueError"
  by (simp add: parse_float_def num_strip_def split_sign_def parse_decimal_def
      parse_mantissa_def)

lemma falsy_price_invalid: "\<not> truthy v \<Longrightarrow> \<not> validate_price v"
  by (cases v) (simp_all add: validate_price_def round_double_def parse_float_empty)

lemma find_map_update:
  "key q = i \<Longrightarrow>
   find (\<lambda>p. key p = i) (map (\<lambda>p. if key p = i then q else p) xs) =
     (case find (\<lambda>p. key p = i) xs of None \<Rightarrow> None | Some p \<Rightarrow> Some q)"
  by (induction xs) auto

lemma find_key: "find (\<lambda>p. key p = i) xs = Some p \<Longrightarrow> key p = i"
  by (induction xs) (auto split: if_splits)

lemma round_double_75: "round_double 75 = Fin 75"
  by code_simp

lemma float_of_75: "py_float (PInt 75) = Inr (Fin 75)"
  by (simp add: round_double_75)

lemma valid_75: "validate_price (PInt 75)"
  by (simp add: validate_price_def round_double_75)

text \<open>
  C10, as the code has it. \<open>update_post\<close> never sets the price of a post to null. A
  falsy price fails \<open>validate_price\<close>, so the branch that would assign \<^verbatim>\<open>None\<close> is
  never taken. For every patch with a \<^verbatim>\<open>price\<close> field, whoever sends it: a price
  that fails validation commits nothing; and either the request is refused (any status
  but 200) and the store is the one it was given, or the answer is 200 and the stored
  price of the post is a number \<open>x\<close> with \<open>0 < x \<le> 999999\<close>.
\<close>

theorem update_post_price_never_null:
  assumes pv: "data ''price'' = Some v"
    and res: "update_post s sess post_id data = (r, s')"
  shows "(\<not> truthy v \<longrightarrow> \<not> validate_price v) \<and>
         (\<not> validate_price v \<longrightarrow> s' = s \<and> snd r \<noteq> 200) \<and>
         (s' = s \<and> snd r \<noteq> 200 \<or>
          snd r = 200 \<and>
          (\<exists>post x. find (\<lambda>p. p_id p = post_id) (posts s') = Some post \<and>
                     p_price post = Some (Fin x) \<and> 0 < x \<and> x \<le> 999999))"
proof -
  have main: "(\<not> validate_price v \<longrightarrow> s' = s \<and> snd r \<noteq> 200) \<and>
         (s' = s \<and> snd r \<noteq> 200 \<or>
          snd r = 200 \<and>
          (\<exists>post x. find (\<lambda>p. p_id p = post_id) (posts s') = Some post \<and>
                     p_price post = Some (Fin x) \<and> 0 < x \<and> x \<le> 999999))"
  proof (cases sess)
    case None
    with res show ?thesis by (auto simp: update_post_def login_needed_def)
  next
    case (Some uid)
    note sess = this
    show ?thesis
    proof (cases "find (\<lambda>p. p_id p = post_id) (posts s)")
      case None
      with res show ?thesis by (auto simp: update_post_def sess)
    next
      case (Some post)
      note post = this
      then have pid: "p_id post = post_id" by (rule find_key)
      show ?thesis
      proof (cases "get_current_user s (Some uid)")
        case None
        with res show ?thesis by (auto simp: update_post_def sess post)
      next
        case (Some u)
        note user = this
        let ?T = "case data ''title'' of None \<Rightarrow> Inr None
                  | Some v \<Rightarrow> then_do (py_slice v 200) (\<lambda>x. Inr (Some x))"
        let ?D = "case data ''description'' of None \<Rightarrow> Inr None
                  | Some v \<Rightarrow> then_do (py_slice v 1000) (\<lambda>x. Inr (Some x))"
        show ?thesis
        proof (cases "p_user_id post = u_id u")
          case False
          with res show ?thesis by (auto simp: update_post_def sess post user)
        next
          case True
          note owner = this
          show ?thesis
          proof (cases ?T)
            case (Inl e)
            with res show ?thesis by (auto simp: update_post_def sess post user owner)
          next
            case (Inr title)
            note title = this
            show ?thesis
            proof (cases ?D)
              case (Inl e)
              with res show ?thesis
                by (auto simp: update_post_def sess post user owner title)
            next
              case (Inr description)
              note description = this
              show ?thesis
              proof (cases "validate_price v")
                case False
                with res show ?thesis
                  by (auto simp: update_post_def sess post user owner title description pv)
              next
                case True
                note valid = this
                then obtain x where x: "py_float v = Inr (Fin x)" "0 < x" "x \<le> 999999"
                  using valid_price_float by blast
                from valid have t: "truthy v" using falsy_price_invalid by blast
                show ?thesis
                proof (cases "assigned title (p_title post) bind_text")
                  case (Inl e)
                  with res show ?thesis
                    by (auto simp: update_post_def sess post user owner title description
                          pv valid t x)
                next
                  case (Inr title')
                  note title' = this
                  show ?thesis
                  proof (cases "assigned description (p_description post) bind_text_opt")
                    case (Inl e)
                    with res show ?thesis
                      by (auto simp: update_post_def sess post user owner title description
                            pv valid t x title')
                  next
                    case (Inr description')
                    with res show ?thesis
                      by (auto simp: update_post_def sess post user owner title description
                            pv valid t x title' pid find_map_update Let_def)
                  qed
                qed
              qed
            qed
          qed
        qed
      qed
    qed
  qed
  from falsy_price_invalid [of v] main show ?thesis by blast
qed

theorem update_post_price_never_null_witness:
  "reprice ''price'' = Some (PInt 75) \<and> validate_price (PInt 75) \<and>
   update_post market (Some 1) 1 reprice =
     ((Success [], 200),
      market\<lparr>posts := [sky\<lparr>p_title := ''Night'', p_price := Some (Fin 75)\<rparr>, sketch]\<rparr>) \<and>
   (\<exists>post x. find (\<lambda>p. p_id p = 1)
                 (posts (market\<lparr>posts := [sky\<lparr>p_title := ''Night'', p_price := Some (Fin 75)\<rparr>,
                                           sketch]\<rparr>)) = Some post \<and>
              p_price post = Some (Fin x) \<and> 0 < x \<and> x \<le> 999999)"
proof -
  have pr: "reprice ''price'' = Some (PInt 75)"
    by (simp add: reprice_def)
  have run: "update_post market (Some 1) 1 reprice =
     ((Success [], 200),
      market\<lparr>posts := [sky\<lparr>p_title := ''Night'', p_price := Some (Fin 75)\<rparr>, sketch]\<rparr>)"
    by (simp add: update_post_def get_current_user_def fixture_defs reprice_def
        first_or_404_def valid_75 round_double_75)
  from update_post_price_never_null [OF pr run] pr run valid_75
  show ?thesis by simp
qed

text \<open>
  With 400 as the only refusal the statement fails: on a post without a price, a patch
  with a valid price and the number 5 as its title is answered 500, and the stored
  price is still null.
\<close>

theorem valid_price_untyped_title:
  "get_current_user market (Some 1) = Some alice \<and>
   posts market = [sky, sketch] \<and> p_id sketch = 2 \<and> p_user_id sketch = u_id alice \<and>
   p_price sketch = None \<and>
   number_title ''price'' = Some (PInt 75) \<and> validate_price (PInt 75) \<and>
   update_post market (Some 1) 2 number_title = ((ErrorExc TypeError, 500), market)"
  by (simp add: valid_75 update_post_def get_current_user_def fixture_defs
      number_title_def first_or_404_def)

subsection \<open>Orders\<close>

lemma fold_max_ge: "(a::int) \<le> fold max ids a"
  by (induction ids arbitrary: a) (auto intro: order_trans [OF max.cobounded2])

lemma fold_max_upper: "i \<in> set ids \<Longrightarrow> (i::int) \<le> fold max ids a"
proof (induction ids arbitrary: a)
  case Nil then show ?case by simp
next
  case (Cons j ids)
  show ?case
  proof (cases "i = j")
    case True
    have "j \<le> max j a" by simp
    also have "\<dots> \<le> fold max ids (max j a)" by (rule fold_max_ge)
    finally show ?thesis using True by simp
  next
    case False
    with Cons show ?thesis by simp
  qed
qed

lemma next_id_fresh: "next_id ids \<notin> set ids"
proof
  assume "next_id ids \<in> set ids"
  then have "next_id ids \<le> fold max ids 0" by (rule fold_max_upper)
  then show False by (simp add: next_id_def)
qed

text \<open>
  C3, as the code has it. For a logged-in identity \<open>u\<close> and an existing post:
  \<open>create_order\<close> answers 400 when the post is not for sale, 400 when \<open>u\<close> owns it, and
  otherwise, when the post has a price \<open>x\<close>, it appends exactly one order, with a fresh
  id, buyer \<open>u\<close>, the price \<open>x\<close> and the status \<^verbatim>\<open>pending\<close>, and answers 201 with
  the id of the order. Nothing else in the store changes.
\<close>

theorem create_order_eligible:
  assumes user: "get_current_user s sess = Some u"
    and post: "find (\<lambda>p. p_id p = post_id) (posts s) = Some post"
  shows "(\<not> p_is_for_sale post \<longrightarrow>
            create_order s sess post_id = ((Error ''Post not for sale'', 400), s)) \<and>
         (p_is_for_sale post \<and> p_user_id post = u_id u \<longrightarrow>
            create_order s sess post_id = ((Error ''Cannot buy own post'', 400), s)) \<and>
         (p_is_for_sale post \<and> p_user_id post \<noteq> u_id u \<and> p_price post = Some x \<longrightarrow>
            create_order s sess post_id =
              ((Success [(''order_id'', PInt (next_id (map o_id (orders s))))], 201),
               s\<lparr>orders := orders s @
                    [\<lparr>o_id = next_id (map o_id (orders s)), o_buyer_id = u_id u,
                      o_post_id = post_id, o_price = x, o_status = ''pending''\<rparr>]\<rparr>) \<and>
            next_id (map o_id (orders s)) \<notin> set (map o_id (orders s)))"
proof -
  from user obtain uid where "sess = Some uid"
    using current_user_session by blast
  with user post next_id_fresh [of "map o_id (orders s)"] show ?thesis
    by (simp add: create_order_def Let_def)
qed

theorem create_order_eligible_witness:
  "get_current_user market (Some 2) = Some bob \<and>
   find (\<lambda>p. p_id p = 1) (posts market) = Some sky \<and>
   p_is_for_sale sky \<and> p_user_id sky \<noteq> u_id bob \<and> p_price sky = Some (Fin 50) \<and>
   create_order market (Some 2) 1 =
     ((Success [(''order_id'', PInt 1)], 201),
      market\<lparr>orders := [\<lparr>o_id = 1, o_buyer_id = 2, o_post_id = 1, o_price = Fin 50,
                          o_status = ''pending''\<rparr>]\<rparr>)"
proof -
  have u: "get_current_user market (Some 2) = Some bob"
    by (simp add: get_current_user_def fixture_defs)
  have p: "find (\<lambda>p. p_id p = 1) (posts market) = Some sky"
    by (simp add: fixture_defs)
  have f: "p_is_for_sale sky \<and> p_user_id sky \<noteq> u_id bob \<and> p_price sky = Some (Fin 50)"
    by (simp add: fixture_defs)
  have o: "orders market = [] \<and> u_id bob = 2"
    by (simp add: fixture_defs)
  from create_order_eligible [OF u p, of "Fin 50"] u p f o
  show ?thesis by (simp add: next_id_def)
qed

text \<open>
  An order of a post that does not exist: \<^verbatim>\<open>get_or_404\<close> raises inside the
  \<^verbatim>\<open>try\<close> block, and the answer is 500, as for a favorite that does not exist.
\<close>

lemma create_order_missing_post:
  assumes "sess = Some uid" and "find (\<lambda>p. p_id p = post_id) (posts s) = None"
  shows "create_order s sess post_id = ((ErrorExc NotFound, 500), s)"
  using assms by (simp add: create_order_def)

text \<open>
  A post can be for sale without a price, and \<^verbatim>\<open>Order.price\<close> cannot be null: bob's
  order of such a post is answered 500 and no order is created.
\<close>

theorem create_order_without_price:
  "get_current_user market (Some 2) = Some bob \<and>
   posts market = [sky, sketch] \<and> p_id sketch = 2 \<and>
   p_is_for_sale sketch \<and> p_user_id sketch \<noteq> u_id bob \<and> p_price sketch = None \<and>
   create_order market (Some 2) 2 = ((ErrorExc DBError, 500), market)"
  by (simp add: create_order_def get_current_user_def fixture_defs first_or_404_def)

subsection \<open>The price of a new post\<close>






subsection \<open>Favorites\<close>

lemma frame_Inl: "frame proj s (Inl e)"
  by (simp add: frame_def)

lemma frame_Inr: "favorites (proj out) = favorites s \<Longrightarrow> frame proj s (Inr out)"
  by (simp add: frame_def)

lemma frame_then_do: "(\<And>x. frame proj s (f x)) \<Longrightarrow> frame proj s (then_do m f)"
  by (cases m) (simp_all add: frame_def)

lemma frame_if:
  "(c \<Longrightarrow> frame proj s a) \<Longrightarrow> (\<not> c \<Longrightarrow> frame proj s b) \<Longrightarrow> frame proj s (if c then a else b)"
  by simp

lemma frame_option:
  "frame proj s a \<Longrightarrow> (\<And>x. frame proj s (b x)) \<Longrightarrow>
   frame proj s (case opt of None \<Rightarrow> a | Some x \<Rightarrow> b x)"
  by (cases opt) simp_all

lemma frame_prod:
  "(\<And>a b. frame proj s (f a b)) \<Longrightarrow> frame proj s (case p of (a, b) \<Rightarrow> f a b)"
  by (cases p) simp

lemma frame_attempt: "frame snd s m \<Longrightarrow> favorites (snd (attempt s m)) = favorites s"
  by (cases m) (simp_all add: frame_def)

lemmas frame_rules = frame_Inl frame_then_do frame_if frame_option frame_prod frame_Inr

lemma favorites_edit_profile: "favorites (snd (edit_profile s sess data)) = favorites s"
  unfolding edit_profile_def Let_def login_needed_def
  by (cases sess) (auto intro!: frame_attempt frame_rules)

lemma favorites_create_post: "favorites (snd (create_post s sess data)) = favorites s"
  unfolding create_post_def Let_def login_needed_def
  by (cases sess) (auto intro!: frame_attempt frame_rules)


lemma favorites_delete_post: "favorites (snd (delete_post s sess i)) = favorites s"
  unfolding delete_post_def Let_def login_needed_def
  by (cases sess) (auto intro!: frame_attempt frame_rules)

lemma favorites_update_post: "favorites (snd (update_post s sess i data)) = favorites s"
  unfolding update_post_def Let_def login_needed_def
  by (cases sess) (auto intro!: frame_attempt frame_rules)

lemma favorites_create_review: "favorites (snd (create_review s sess i data)) = favorites s"
  unfolding create_review_def Let_def login_needed_def
  by (cases sess) (auto intro!: frame_attempt frame_rules)

lemma favorites_create_order: "favorites (snd (create_order s sess i)) = favorites s"
  unfolding create_order_def Let_def login_needed_def
  by (cases sess) (auto intro!: frame_attempt frame_rules)

lemma favorites_create_commission:
  "favorites (snd (create_commission s sess data)) = favorites s"
  unfolding create_commission_def Let_def login_needed_def
  by (cases sess) (auto intro!: frame_attempt frame_rules)

lemma favorites_delete_commission:
  "favorites (snd (delete_commission s sess i)) = favorites s"
  unfolding delete_commission_def Let_def login_needed_def
  by (cases sess) (auto intro!: frame_attempt frame_rules)

lemma favorites_seed_data: "favorites (snd (seed_data gen s)) = favorites s"
  by (simp add: seed_data_def Let_def split: option.splits)

lemma frame_register:
  "frame (\<lambda>out. fst (snd out)) s m \<Longrightarrow>
   favorites (fst (snd (case m of Inl e \<Rightarrow> (r e, s, sess) | Inr out \<Rightarrow> out))) = favorites s"
  by (cases m) (simp_all add: frame_def)

lemma favorites_register: "favorites (fst (snd (register gen s sess data))) = favorites s"
  unfolding register_def Let_def
  by (rule frame_register) (auto intro!: frame_rules)


lemma favorites_step_other:
  "(\<forall>i. req \<noteq> AddFavorite i) \<Longrightarrow> (\<forall>i. req \<noteq> RemoveFavorite i) \<Longrightarrow>
   favorites (step gen s (sess, req)) = favorites s"
  by (cases req)
     (simp_all add: favorites_register favorites_edit_profile favorites_create_post
        favorites_delete_post favorites_update_post favorites_create_review
        favorites_create_order favorites_create_commission favorites_delete_commission
        favorites_seed_data)

lemma find_None_key:
  "find (\<lambda>f. f_user_id f = uid \<and> f_post_id f = post_id) favs = None \<Longrightarrow>
   (uid, post_id) \<notin> set (map fav_key favs)"
  by (induction favs) (auto simp: fav_key_def split: if_splits)

lemma fav_unique_add_favorite:
  "fav_unique s \<Longrightarrow> fav_unique (snd (add_favorite s sess post_id))"
proof -
  assume inv: "fav_unique s"
  show ?thesis
  proof (cases sess)
    case None
    with inv show ?thesis by (simp add: add_favorite_def login_needed_def)
  next
    case (Some uid0)
    note sess = this
    show ?thesis
    proof (cases "first_or_404 (\<lambda>p. p_id p = post_id) (posts s)")
      case (Inl e)
      with inv show ?thesis by (simp add: add_favorite_def sess)
    next
      case (Inr post)
      note post = this
      show ?thesis
      proof (cases "get_current_user s (Some uid0)")
        case None
        with inv show ?thesis by (simp add: add_favorite_def sess post)
      next
        case (Some u)
        note user = this
        show ?thesis
        proof (cases "find (\<lambda>f. f_user_id f = u_id u \<and> f_post_id f = post_id) (favorites s)")
          case None
          from find_None_key [OF None] inv show ?thesis
            by (simp add: add_favorite_def sess post user None fav_unique_def fav_key_def)
        next
          case (Some f)
          with inv show ?thesis by (simp add: add_favorite_def sess post user)
        qed
      qed
    qed
  qed
qed

lemma fav_unique_remove_favorite:
  "fav_unique s \<Longrightarrow> fav_unique (snd (remove_favorite s sess post_id))"
proof -
  assume inv: "fav_unique s"
  show ?thesis
  proof (cases sess)
    case None
    with inv show ?thesis by (simp add: remove_favorite_def login_needed_def)
  next
    case (Some uid0)
    note sess = this
    show ?thesis
    proof (cases "get_current_user s (Some uid0)")
      case None
      with inv show ?thesis by (simp add: remove_favorite_def sess)
    next
      case (Some u)
      note user = this
      show ?thesis
      proof (cases "first_or_404 (\<lambda>f. f_user_id f = u_id u \<and> f_post_id f = post_id)
                      (favorites s)")
        case (Inl e)
        with inv show ?thesis by (simp add: remove_favorite_def sess user)
      next
        case (Inr fav)
        with inv show ?thesis
          by (simp add: remove_favorite_def sess user fav_unique_def distinct_map_filter)
      qed
    qed
  qed
qed

lemma fav_unique_step: "fav_unique s \<Longrightarrow> fav_unique (step gen s sr)"
proof -
  assume inv: "fav_unique s"
  obtain sess req where sr: "sr = (sess, req)" by (cases sr)
  show ?thesis
  proof (cases "(\<exists>i. req = AddFavorite i) \<or> (\<exists>i. req = RemoveFavorite i)")
    case True
    with inv sr show ?thesis
      by (auto simp: fav_unique_add_favorite fav_unique_remove_favorite)
  next
    case False
    then have "favorites (step gen s (sess, req)) = favorites s"
      by (intro favorites_step_other) auto
    with inv sr show ?thesis by (simp add: fav_unique_def)
  qed
qed

lemma fav_unique_run_from: "fav_unique s \<Longrightarrow> fav_unique (run gen s reqs)"
  unfolding run_def
  by (induction reqs arbitrary: s) (simp_all add: fav_unique_step)

text \<open>
  In every store reached from the empty one, no two favorites have the same user and
  the same post.
\<close>

lemma fav_unique_reachable: "fav_unique (run gen empty_store reqs)"
  by (rule fav_unique_run_from) (simp add: fav_unique_def empty_store_def)


lemma add_favorite_result:
  assumes user: "get_current_user s sess = Some u"
    and post: "find (\<lambda>p. p_id p = post_id) (posts s) = Some post"
  shows "add_favorite s sess post_id =
           (if find (\<lambda>f. f_user_id f = u_id u \<and> f_post_id f = post_id) (favorites s) \<noteq> None
            then ((Error ''Already favorited'', 400), s)
            else ((Success [], 201),
                  s\<lparr>favorites := favorites s @
                       [\<lparr>f_id = next_id (map f_id (favorites s)), f_user_id = u_id u,
                         f_post_id = post_id\<rparr>]\<rparr>))"
proof -
  from user obtain uid where "sess = Some uid"
    using current_user_session by blast
  with user post show ?thesis
    by (simp add: add_favorite_def Let_def)
qed

lemma remove_favorite_result:
  assumes user: "get_current_user s sess = Some u"
  shows "remove_favorite s sess post_id =
           (case find (\<lambda>f. f_user_id f = u_id u \<and> f_post_id f = post_id) (favorites s) of
              None \<Rightarrow> ((ErrorExc NotFound, 500), s)
            | Some fav \<Rightarrow> ((Success [], 200),
                           s\<lparr>favorites := filter (\<lambda>f. f_id f \<noteq> f_id fav) (favorites s)\<rparr>))"
proof -
  from user obtain uid where "sess = Some uid"
    using current_user_session by blast
  with user show ?thesis
    by (simp add: remove_favorite_def first_or_404_def split: option.splits)
qed

lemma find_Some_key:
  "find (\<lambda>f. f_user_id f = uid \<and> f_post_id f = post_id) favs = Some fav \<Longrightarrow>
   fav \<in> set favs \<and> fav_key fav = (uid, post_id)"
  by (induction favs) (auto simp: fav_key_def split: if_splits)

lemma removed_key_gone:
  assumes "distinct (map fav_key favs)"
    and "find (\<lambda>f. f_user_id f = uid \<and> f_post_id f = post_id) favs = Some fav"
  shows "find (\<lambda>f. f_user_id f = uid \<and> f_post_id f = post_id)
           (filter (\<lambda>f. f_id f \<noteq> f_id fav) favs) = None"
proof -
  from assms(2) have fav: "fav \<in> set favs" "fav_key fav = (uid, post_id)"
    using find_Some_key by blast+
  have "f = fav" if "f \<in> set favs" "fav_key f = (uid, post_id)" for f
    using assms(1) that fav by (metis distinct_map inj_onD)
  then have "\<not> (\<exists>f \<in> set (filter (\<lambda>f. f_id f \<noteq> f_id fav) favs).
                 f_user_id f = uid \<and> f_post_id f = post_id)"
    by (auto simp: fav_key_def)
  then show ?thesis by (simp add: find_None_iff)
qed


lemma find_append:
  "find P (xs @ ys) = (case find P xs of None \<Rightarrow> find P ys | Some x \<Rightarrow> Some x)"
  by (induction xs) auto

lemma current_user_users:
  "users s' = users s \<Longrightarrow> get_current_user s' sess = get_current_user s sess"
  by (cases sess) (simp_all add: get_current_user_def)

text \<open>
  After a favorite was added (or was there already) and removed, adding it again
  succeeds.
\<close>

lemma favorite_add_remove_add:
  assumes user: "get_current_user s sess = Some u"
    and post: "find (\<lambda>p. p_id p = post_id) (posts s) = Some post"
    and inv: "fav_unique s"
  shows "fst (remove_favorite (snd (add_favorite s sess post_id)) sess post_id) = (Success [], 200) \<and>
         fst (add_favorite (snd (remove_favorite (snd (add_favorite s sess post_id)) sess post_id))
                sess post_id) = (Success [], 201)"
proof -
  let ?P = "\<lambda>f. f_user_id f = u_id u \<and> f_post_id f = post_id"
  define s1 where "s1 = snd (add_favorite s sess post_id)"
  have same1: "users s1 = users s" "posts s1 = posts s"
    by (simp_all add: s1_def add_favorite_result [OF user post])
  have user1: "get_current_user s1 sess = Some u"
    using user current_user_users [OF same1(1), of sess] by simp
  have post1: "find (\<lambda>p. p_id p = post_id) (posts s1) = Some post"
    using post same1 by simp
  have inv1: "fav_unique s1"
    unfolding s1_def using inv by (rule fav_unique_add_favorite)
  have "find ?P (favorites s1) \<noteq> None"
    by (cases "find ?P (favorites s)")
       (simp_all add: s1_def add_favorite_result [OF user post] find_append)
  then obtain fav where fav: "find ?P (favorites s1) = Some fav" by blast
  define s2 where "s2 = snd (remove_favorite s1 sess post_id)"
  have removed: "remove_favorite s1 sess post_id =
      ((Success [], 200), s1\<lparr>favorites := filter (\<lambda>f. f_id f \<noteq> f_id fav) (favorites s1)\<rparr>)"
    by (simp add: remove_favorite_result [OF user1] fav)
  have same2: "users s2 = users s1" "posts s2 = posts s1"
    "favorites s2 = filter (\<lambda>f. f_id f \<noteq> f_id fav) (favorites s1)"
    by (simp_all add: s2_def removed)
  have user2: "get_current_user s2 sess = Some u"
    using user1 current_user_users [OF same2(1), of sess] by simp
  have post2: "find (\<lambda>p. p_id p = post_id) (posts s2) = Some post"
    using post1 same2 by simp
  have gone: "find ?P (favorites s2) = None"
    using removed_key_gone [OF inv1 [unfolded fav_unique_def] fav] same2 by simp
  have again: "fst (add_favorite s2 sess post_id) = (Success [], 201)"
    by (simp add: add_favorite_result [OF user2 post2] gone)
  have "fst (remove_favorite s1 sess post_id) = (Success [], 200)"
    by (simp add: removed)
  with again show ?thesis unfolding s2_def s1_def by (rule conjI [rotated])
qed

text \<open>
  C4. \<open>remove_favorite\<close> of a favorite that does not exist: \<^verbatim>\<open>first_or_404\<close> raises
  \<^verbatim>\<open>NotFound\<close> inside the \<^verbatim>\<open>try\<close> block, \<^verbatim>\<open>except Exception\<close> catches it, and
  the answer is 500 with the text of the exception, not 404. The store is unchanged.
\<close>

theorem remove_favorite_missing:
  assumes "get_current_user s sess = Some u"
    and "find (\<lambda>f. f_user_id f = u_id u \<and> f_post_id f = post_id) (favorites s) = None"
  shows "remove_favorite s sess post_id = ((ErrorExc NotFound, 500), s)"
  using assms by (simp add: remove_favorite_result)

theorem remove_favorite_missing_witness:
  "get_current_user market (Some 2) = Some bob \<and> favorites market = [] \<and>
   remove_favorite market (Some 2) 1 = ((ErrorExc NotFound, 500), market)"
proof -
  have u: "get_current_user market (Some 2) = Some bob"
    by (simp add: get_current_user_def fixture_defs)
  have f: "favorites market = []"
    by (simp add: fixture_defs)
  from remove_favorite_missing [OF u, of 1] u f show ?thesis by simp
qed

subsection \<open>Registration and login\<close>

lemma email_nonempty: "validate_email (PStr email) = Inr True \<Longrightarrow> email \<noteq> []"
  by (auto simp: email_pattern_def)

text \<open>
  C5. A registration with a username of 3 to 80 characters, an e-mail address that
  matches the pattern, a password of at least 6 characters, and a username and an
  address that no user has, is answered 201 and stores the user with the hash of the
  password; a login that follows with the same username and password is answered 200
  and opens the session of the new user, provided the hash of the password verifies
  against the password.
\<close>

theorem register_then_login:
  assumes verify: "chk (gen password) password"
    and fields: "data ''username'' = Some (PStr username)" "data ''email'' = Some (PStr email)"
      "data ''password'' = Some (PStr password)"
    and uname: "3 \<le> length username" "length username \<le> 80"
    and mail: "validate_email (PStr email) = Inr True"
    and pw: "6 \<le> length password"
    and free: "find (\<lambda>u. u_username u = username) (users s) = None"
      "find (\<lambda>u. u_email u = email) (users s) = None"
    and creds: "cred ''username'' = Some (PStr username)" "cred ''password'' = Some (PStr password)"
  shows "register gen s sess data =
           ((Success [(''message'', PStr ''Registration successful'')], 201),
            s\<lparr>users := users s @
                 [\<lparr>u_id = next_id (map u_id (users s)), u_username = username,
                   u_email = email, u_password = gen password, u_bio = None,
                   u_avatar_url = None, u_is_artist = False\<rparr>]\<rparr>,
            Some (next_id (map u_id (users s)))) \<and>
         login real_text chk (fst (snd (register gen s sess data))) sess' cred =
           ((Success [(''message'', PStr ''Login successful'')], 200),
            Some (next_id (map u_id (users s))))"
proof -
  from mail have e: "email \<noteq> []" by (rule email_nonempty)
  from uname pw have ne: "username \<noteq> []" "password \<noteq> []" by auto
  from uname pw have len: "\<not> length username < 3" "\<not> 80 < length username"
    "\<not> length password < 6" by auto
  have reg: "register gen s sess data =
           ((Success [(''message'', PStr ''Registration successful'')], 201),
            s\<lparr>users := users s @
                 [\<lparr>u_id = next_id (map u_id (users s)), u_username = username,
                   u_email = email, u_password = gen password, u_bio = None,
                   u_avatar_url = None, u_is_artist = False\<rparr>]\<rparr>,
            Some (next_id (map u_id (users s))))"
    using mail by (simp add: register_def dget_def fields e ne len free Let_def
                     del: validate_email.simps)
  have "login real_text chk (fst (snd (register gen s sess data))) sess' cred =
           ((Success [(''message'', PStr ''Login successful'')], 200),
            Some (next_id (map u_id (users s))))"
    by (simp add: reg login_def dget_def creds ne find_append free verify)
  with reg show ?thesis by simp
qed

theorem register_then_login_witness:
  "demo_check (demo_hash ''secret1'') ''secret1'' \<and>
   validate_email (PStr ''alice@x.com'') = Inr True \<and>
   register demo_hash empty_store None alice_form =
     ((Success [(''message'', PStr ''Registration successful'')], 201),
      empty_store\<lparr>users := [alice\<lparr>u_is_artist := False\<rparr>]\<rparr>, Some 1) \<and>
   login demo_real_text demo_check (empty_store\<lparr>users := [alice\<lparr>u_is_artist := False\<rparr>]\<rparr>) None alice_form =
     ((Success [(''message'', PStr ''Login successful'')], 200), Some 1)"
proof -
  have v: "demo_check (demo_hash ''secret1'') ''secret1''"
    by (simp add: demo_check_def demo_hash_def)
  have m0: "rx_match email_pattern ''alice@x.com''"
    by (simp add: email_pattern_def is_alpha_def is_digit_def is_upper_def is_lower_def)
  then have m: "validate_email (PStr ''alice@x.com'') = Inr True"
    by simp
  have f: "alice_form ''username'' = Some (PStr ''alice'')"
    "alice_form ''email'' = Some (PStr ''alice@x.com'')"
    "alice_form ''password'' = Some (PStr ''secret1'')"
    by (simp_all add: alice_form_def)
  have n: "users empty_store = []" "next_id [] = 1"
    by (simp_all add: empty_store_def next_id_def)
  have both: "register demo_hash empty_store None alice_form =
           ((Success [(''message'', PStr ''Registration successful'')], 201),
            empty_store\<lparr>users := users empty_store @
                 [\<lparr>u_id = next_id (map u_id (users empty_store)), u_username = ''alice'',
                   u_email = ''alice@x.com'', u_password = demo_hash ''secret1'', u_bio = None,
                   u_avatar_url = None, u_is_artist = False\<rparr>]\<rparr>,
            Some (next_id (map u_id (users empty_store)))) \<and>
         login demo_real_text demo_check (fst (snd (register demo_hash empty_store None alice_form))) None
             alice_form =
           ((Success [(''message'', PStr ''Login successful'')], 200),
            Some (next_id (map u_id (users empty_store))))"
    by (rule register_then_login [where chk = demo_check and gen = demo_hash
          and real_text = demo_real_text
          and password = "''secret1''" and username = "''alice''" and email = "''alice@x.com''"
          and data = alice_form and cred = alice_form and s = empty_store])
       (simp_all add: v f m0 n)
  note r0 = both [THEN conjunct1] and l0 = both [THEN conjunct2]
  have r: "register demo_hash empty_store None alice_form =
     ((Success [(''message'', PStr ''Registration successful'')], 201),
      empty_store\<lparr>users := [alice\<lparr>u_is_artist := False\<rparr>]\<rparr>, Some 1)"
    using r0 by (simp add: n alice_def demo_hash_def)
  have l: "login demo_real_text demo_check (empty_store\<lparr>users := [alice\<lparr>u_is_artist := False\<rparr>]\<rparr>)
      None alice_form = ((Success [(''message'', PStr ''Login successful'')], 200), Some 1)"
    using l0 unfolding r0 fst_conv snd_conv by (simp add: n alice_def demo_hash_def)
  from v m r l show ?thesis by (intro conjI)
qed

subsection \<open>Prices and ratings\<close>

text \<open>
  Rounding to a double is exact on the integers of at most 53 bits, gives at least
  \<open>2 ^ 53\<close> (or overflows) on the larger ones, and never turns a negative number into
  a positive one.
\<close>

lemma round_half_even_int [simp]: "round_half_even (of_int k) = k"
  by (simp add: round_half_even_def)

lemma round_half_even_floor: "\<lfloor>x\<rfloor> \<le> round_half_even x"
  by (simp add: round_half_even_def Let_def)

lemma ilog2_int: "1 \<le> n \<Longrightarrow> ilog2 (of_int n) = bitlen n - 1"
  by (simp add: ilog2_def)

lemma bitlen_pos: "1 \<le> n \<Longrightarrow> 1 \<le> bitlen n"
  using bitlen_eq_zero_iff [of n] bitlen_nonneg [of n] by linarith

lemma round_double_small_int:
  assumes n: "1 \<le> n" and b: "bitlen n \<le> 53"
  shows "round_double (of_int n) = Fin (of_int n)"
proof -
  define k where "k = nat (53 - bitlen n)"
  have b1: "1 \<le> bitlen n" using n by (rule bitlen_pos)
  have e: "max (ilog2 (of_int n) - 52) (- 1074) = - int k"
    using b b1 by (simp add: ilog2_int [OF n] k_def)
  have p: "(2::rat) powi (- int k) = 1 / 2 ^ k"
    by (simp add: power_int_def field_simps)
  have q: "(of_int n :: rat) / (1 / 2 ^ k) = of_int (n * 2 ^ k)"
    by simp
  have lt: "n < 2 ^ nat (bitlen n)" using bitlen_bounds [of n] n by simp
  have "(2::int) ^ nat (bitlen n) \<le> 2 ^ 53"
    using b by (intro power_increasing) auto
  with lt have "n < 2 ^ 53" by linarith
  then have "(of_int n :: rat) < of_int (2 ^ 53)" by (simp only: of_int_less_iff)
  then have small: "\<not> (2::rat) powi 1024 \<le> of_int n" by (simp add: power_int_def)
  have npos: "(of_int n :: rat) \<noteq> 0" "\<not> (of_int n :: rat) < 0" "\<bar>of_int n :: rat\<bar> = of_int n"
    using n by auto
  show ?thesis
    unfolding round_double_def Let_def npos e p q round_half_even_int
    using small npos by simp
qed


lemma round_double_large_int:
  assumes n: "1 \<le> n" and b: "54 \<le> bitlen n"
  shows "round_double (of_int n) = PosInf \<or>
         (\<exists>y. round_double (of_int n) = Fin y \<and> 2 ^ 53 \<le> y)"
proof -
  define j where "j = nat (bitlen n - 53)"
  have j: "1 \<le> j" "nat (bitlen n - 1) = 52 + j" using b by (simp_all add: j_def)
  have e: "max (ilog2 (of_int n) - 52) (- 1074) = int j"
    using b by (simp add: ilog2_int [OF n] j_def)
  have p: "(2::rat) powi (int j) = 2 ^ j"
    by (simp add: power_int_def)
  define m where "m = round_half_even (of_int n / 2 ^ j)"
  have "(2::int) ^ (52 + j) \<le> n" using bitlen_bounds [of n] n j by simp
  then have "(of_int ((2::int) ^ 52 * 2 ^ j) :: rat) \<le> of_int n"
    by (simp only: of_int_le_iff power_add)
  then have "(2::rat) ^ 52 * 2 ^ j \<le> of_int n" by simp
  then have "(2::rat) ^ 52 \<le> of_int n / 2 ^ j"
    by (simp add: pos_le_divide_eq)
  then have "(of_int ((2::int) ^ 52) :: rat) \<le> of_int n / 2 ^ j" by simp
  then have "(2::int) ^ 52 \<le> \<lfloor>(of_int n :: rat) / 2 ^ j\<rfloor>"
    by (simp only: le_floor_iff)
  also have "\<dots> \<le> m" unfolding m_def by (rule round_half_even_floor)
  finally have m52: "(2::int) ^ 52 \<le> m" .
  then have "(of_int ((2::int) ^ 52) :: rat) \<le> of_int m" by (simp only: of_int_le_iff)
  then have mr: "(2::rat) ^ 52 \<le> of_int m" by simp
  have "(2::rat) ^ 1 \<le> 2 ^ j" using j by (intro power_increasing) auto
  then have j2: "(2::rat) \<le> 2 ^ j" by simp
  have "(2::rat) ^ 52 * 2 \<le> of_int m * 2 ^ j"
    using mr j2 by (intro mult_mono) auto
  then have big: "(2::rat) ^ 53 \<le> of_int m * 2 ^ j" by simp
  have npos: "(of_int n :: rat) \<noteq> 0" "\<not> (of_int n :: rat) < 0" "\<bar>of_int n :: rat\<bar> = of_int n"
    using n by auto
  have "round_double (of_int n) =
          (if 2 powi 1024 \<le> (of_int m :: rat) * 2 ^ j then PosInf else Fin (of_int m * 2 ^ j))"
    unfolding round_double_def Let_def npos e p m_def [symmetric] using n by simp
  with big show ?thesis by auto
qed

lemma round_double_negative:
  assumes x: "x < 0"
  shows "round_double x = NegInf \<or> (\<exists>y. round_double x = Fin y \<and> y \<le> 0)"
proof -
  define e where "e = max (ilog2 \<bar>x\<bar> - 52) (- 1074)"
  define m where "m = round_half_even (\<bar>x\<bar> / 2 powi e)"
  have pe: "(0::rat) < 2 powi e" by simp
  then have "0 \<le> \<bar>x\<bar> / 2 powi e" by simp
  then have "0 \<le> \<lfloor>\<bar>x\<bar> / 2 powi e\<rfloor>" by simp
  also have "\<dots> \<le> m" unfolding m_def by (rule round_half_even_floor)
  finally have "0 \<le> m" .
  then have y: "0 \<le> (of_int m :: rat) * 2 powi e" using pe by simp
  have "round_double x =
          (if 2 powi 1024 \<le> (of_int m :: rat) * 2 powi e then NegInf
           else Fin (- (of_int m * 2 powi e)))"
    unfolding round_double_def Let_def e_def [symmetric] m_def [symmetric] using x by simp
  with y show ?thesis by auto
qed

lemma validate_price_int: "validate_price (PInt n) \<longleftrightarrow> 0 < n \<and> n \<le> 999999"
proof -
  consider (neg) "n < 0" | (zero) "n = 0" | (small) "1 \<le> n" "bitlen n \<le> 53"
    | (large) "1 \<le> n" "54 \<le> bitlen n"
    by linarith
  then show ?thesis
  proof cases
    case neg
    then have "(of_int n :: rat) < 0" by simp
    from round_double_negative [OF this] neg show ?thesis
      by (auto simp: validate_price_def)
  next
    case zero
    then show ?thesis by (simp add: not_valid_zero)
  next
    case small
    then show ?thesis
      by (simp add: validate_price_def round_double_small_int)
  next
    case large
    have "n \<le> 999999 \<Longrightarrow> False"
    proof -
      assume "n \<le> 999999"
      then have "n < 2 ^ 53" by simp
      moreover have "(2::int) ^ 53 \<le> 2 ^ nat (bitlen n - 1)"
        using large by (intro power_increasing) auto
      ultimately show False using bitlen_bounds [of n] large by simp
    qed
    moreover from round_double_large_int [OF large]
    have "\<not> validate_price (PInt n)"
      by (auto simp: validate_price_def)
    ultimately show ?thesis by auto
  qed
qed


lemma parse_float_abc: "parse_float ''abc'' = Inl ValueError"
  by code_simp

lemma parse_float_12_5: "parse_float ''12.5'' = Inr (Fin (25 / 2))"
  by code_simp

text \<open>
  C8. \<open>validate_price\<close> is true exactly for the inputs that \<^verbatim>\<open>float\<close> converts
  to a number \<open>x\<close> with \<open>0 < x \<le> 999999\<close>. On an integer \<open>n\<close> that is
  \<open>0 < n \<le> 999999\<close>, whatever the size of \<open>n\<close> (the conversion rounds, or overflows);
  on a float it is the same test, and NaN and the infinities are rejected; \<^verbatim>\<open>None\<close>,
  arrays and objects are rejected; a string is accepted when it is a float literal with
  such a value, and rejected when it is not a literal. \<^verbatim>\<open>float(True)\<close> is 1.0, so of
  the booleans \<^verbatim>\<open>True\<close> is accepted as 1.
\<close>

theorem validate_price_exact:
  "(validate_price v \<longleftrightarrow> (\<exists>x. py_float v = Inr (Fin x) \<and> 0 < x \<and> x \<le> 999999)) \<and>
   (validate_price (PInt n) \<longleftrightarrow> 0 < n \<and> n \<le> 999999) \<and>
   (validate_price (PFloat (Fin q)) \<longleftrightarrow> 0 < q \<and> q \<le> 999999) \<and>
   \<not> validate_price (PFloat NaN) \<and> \<not> validate_price (PFloat PosInf) \<and>
   \<not> validate_price (PFloat NegInf) \<and>
   \<not> validate_price PNone \<and> \<not> validate_price (PList xs) \<and> \<not> validate_price (PDict kvs) \<and>
   (validate_price (PBool b) \<longleftrightarrow> b) \<and>
   (validate_price (PStr s) \<longleftrightarrow> (\<exists>x. parse_float s = Inr (Fin x) \<and> 0 < x \<and> x \<le> 999999)) \<and>
   \<not> validate_price (PStr ''abc'')"
proof -
  have general: "validate_price w \<longleftrightarrow> (\<exists>x. py_float w = Inr (Fin x) \<and> 0 < x \<and> x \<le> 999999)"
    for w
  proof
    assume "validate_price w"
    then show "\<exists>x. py_float w = Inr (Fin x) \<and> 0 < x \<and> x \<le> 999999"
      by (rule valid_price_float)
  next
    assume "\<exists>x. py_float w = Inr (Fin x) \<and> 0 < x \<and> x \<le> 999999"
    then show "validate_price w" by (auto simp: validate_price_def)
  qed
  have str: "validate_price (PStr s) \<longleftrightarrow>
      (\<exists>x. parse_float s = Inr (Fin x) \<and> 0 < x \<and> x \<le> 999999)"
    using general [of "PStr s"] by simp
  have abc: "\<not> validate_price (PStr ''abc'')"
    by (simp add: validate_price_def parse_float_abc)
  have others: "(validate_price (PFloat (Fin q)) \<longleftrightarrow> 0 < q \<and> q \<le> 999999) \<and>
   \<not> validate_price (PFloat NaN) \<and> \<not> validate_price (PFloat PosInf) \<and>
   \<not> validate_price (PFloat NegInf) \<and>
   \<not> validate_price PNone \<and> \<not> validate_price (PList xs) \<and> \<not> validate_price (PDict kvs) \<and>
   (validate_price (PBool b) \<longleftrightarrow> b)"
    by (simp add: validate_price_def)
  from general [of v] validate_price_int [of n] others str abc show ?thesis by blast
qed

theorem validate_price_exact_witness:
  "validate_price (PInt 1) \<and> validate_price (PInt 999999) \<and> \<not> validate_price (PInt 0) \<and>
   \<not> validate_price (PInt (- 3)) \<and> \<not> validate_price (PInt 1000000) \<and>
   validate_price (PFloat (Fin (1 / 100))) \<and> \<not> validate_price (PFloat (Fin (9999991 / 10))) \<and>
   validate_price (PStr ''12.5'') \<and> \<not> validate_price (PStr ''abc'')"
proof -
  note t = validate_price_exact [of "PInt 1" _ _ "[]" "[]" True "''12.5''"]
  have "\<exists>x. parse_float ''12.5'' = Inr (Fin x) \<and> 0 < x \<and> x \<le> 999999"
    unfolding parse_float_12_5 by (intro exI [of _ "25 / 2"]) simp
  with t [of 1 1] have s: "validate_price (PStr ''12.5'')" by blast
  from t [of 1 "1 / 100"] t [of 999999 "9999991 / 10"] t [of 0 1] t [of "- 3" 1]
    t [of 1000000 1] s
  show ?thesis by simp
qed

lemma parse_int_abc: "parse_int ''abc'' = Inl ValueError"
  by code_simp

lemma parse_int_3_5: "parse_int ''3.5'' = Inl ValueError"
  by code_simp

text \<open>
  C7, as the code has it. \<open>validate_rating\<close> is true exactly for the inputs that
  \<^verbatim>\<open>int\<close> converts to an integer from 1 to 5: the integers 1 to 5 and no other
  integer; the strings that are integer literals with such a value, so neither
  \<^verbatim>\<open>"abc"\<close> nor \<^verbatim>\<open>"3.5"\<close>; and, since \<^verbatim>\<open>int\<close> drops the fraction of a float,
  every float \<open>q\<close> with \<open>1 \<le> q < 6\<close>.
\<close>

theorem validate_rating_exact:
  "(validate_rating v \<longleftrightarrow> (\<exists>r. py_int v = Inr r \<and> 1 \<le> r \<and> r \<le> 5)) \<and>
   (validate_rating (PInt n) \<longleftrightarrow> 1 \<le> n \<and> n \<le> 5) \<and>
   (validate_rating (PFloat (Fin q)) \<longleftrightarrow> 1 \<le> q \<and> q < 6) \<and>
   (validate_rating (PStr s) \<longleftrightarrow> (\<exists>r. parse_int s = Inr r \<and> 1 \<le> r \<and> r \<le> 5)) \<and>
   \<not> validate_rating (PStr ''abc'') \<and> \<not> validate_rating (PStr ''3.5'') \<and>
   \<not> validate_rating PNone"
proof -
  have general: "validate_rating w \<longleftrightarrow> (\<exists>r. py_int w = Inr r \<and> 1 \<le> r \<and> r \<le> 5)" for w
    by (cases "py_int w") (simp_all add: validate_rating_def)
  have flt: "validate_rating (PFloat (Fin q)) \<longleftrightarrow> 1 \<le> q \<and> q < 6"
  proof (cases "0 \<le> q")
    case True
    have "1 \<le> \<lfloor>q\<rfloor> \<longleftrightarrow> 1 \<le> q" using le_floor_iff [of 1 q] by simp
    moreover have "\<lfloor>q\<rfloor> \<le> 5 \<longleftrightarrow> q < 6" using floor_less_iff [of q 6] by auto
    ultimately show ?thesis using True by (simp add: validate_rating_def)
  next
    case False
    then have "\<lceil>q\<rceil> \<le> 0" by (simp add: ceiling_le_iff)
    with False show ?thesis by (simp add: validate_rating_def)
  qed
  have rest: "(validate_rating (PInt n) \<longleftrightarrow> 1 \<le> n \<and> n \<le> 5) \<and>
      \<not> validate_rating (PStr ''abc'') \<and> \<not> validate_rating (PStr ''3.5'') \<and>
      \<not> validate_rating PNone"
    by (simp add: validate_rating_def parse_int_abc parse_int_3_5)
  from general [of v] general [of "PStr s"] flt rest show ?thesis by simp
qed

theorem validate_rating_exact_witness:
  "validate_rating (PInt 1) \<and> validate_rating (PInt 5) \<and> \<not> validate_rating (PInt 0) \<and>
   \<not> validate_rating (PInt 6) \<and> \<not> validate_rating (PStr ''abc'') \<and>
   validate_rating (PFloat (Fin (7 / 2)))"
  using validate_rating_exact [of PNone 1 "7 / 2" "[]"] validate_rating_exact [of PNone 5 1 "[]"]
    validate_rating_exact [of PNone 0 1 "[]"] validate_rating_exact [of PNone 6 1 "[]"]
  by simp

text \<open>The number 3.5 is accepted: \<^verbatim>\<open>int(3.5)\<close> is 3.\<close>

theorem rating_three_and_a_half:
  "py_int (PFloat (Fin (7 / 2))) = Inr 3 \<and> validate_rating (PFloat (Fin (7 / 2)))"
  by code_simp

subsection \<open>Search\<close>

















text \<open>
  A query is put into the \<^verbatim>\<open>LIKE\<close> pattern as it is, so \<^verbatim>\<open>_\<close> and \<^verbatim>\<open>%\<close> in
  it act as wildcards: \<^verbatim>\<open>s_\<close> finds both posts of the market, and neither contains
  the two characters.
\<close>

lemma search_wildcard:
  "search market ''s_'' 1 = (SearchPage (Some [sky, sketch]) (Some []) ''s_'', 200) \<and>
   \<not> post_matches ''s_'' sky \<and> \<not> post_matches ''s_'' sketch"
  by code_simp

subsection \<open>The small marketplace is a reachable store\<close>

lemma market_reachable: "run demo_hash empty_store market_requests = market"
  by code_simp

end
